theory Spec2Isabelle
  imports Complex_Main "HOL-Library.AList"
begin

section \<open>Weather-driven commodity price forecaster (Model.Py)\<close>

text \<open>
  A shallow embedding of the class \<open>WeatherCommodityForecaster\<close>. Floating-point numbers
  are read as real numbers (no rounding); the values that are not real numbers and that
  the program can produce by dividing by zero (infinities, not-a-number) are kept
  explicit in the type \<open>npfloat\<close>. Exceptions are values of the type \<open>error\<close>; a function
  that can raise returns \<open>error + 'a\<close>, with \<open>Inl\<close> the exception.
\<close>

subsection \<open>Exceptions and numpy values\<close>

datatype error =
    ValueError string
  | IndexError
  | KeyError string
  | AttributeError
  | NotFittedError
  | OverflowError
  | OutOfBoundsDatetime
  | LibraryError string

datatype npfloat = Fin real | PosInf | NegInf | NaN

text \<open>Division of two finite floats as numpy and pandas do it: no exception, a division
  by zero gives an infinity with the sign of the numerator, and \<open>0 / 0\<close> is not a number.\<close>

definition np_div :: "real \<Rightarrow> real \<Rightarrow> npfloat" where
  "np_div a b =
     (if b \<noteq> 0 then Fin (a / b)
      else if 0 < a then PosInf
      else if a < 0 then NegInf
      else NaN)"

text \<open>\<open>np.maximum(0, v)\<close>: the larger of the two, and not-a-number stays not-a-number.\<close>

fun np_maximum0 :: "npfloat \<Rightarrow> npfloat" where
  "np_maximum0 (Fin r) = Fin (max 0 r)"
| "np_maximum0 PosInf = PosInf"
| "np_maximum0 NegInf = Fin 0"
| "np_maximum0 NaN = NaN"

text \<open>\<open>fillna(0)\<close> replaces not-a-number alone; an infinity is not a missing value.\<close>

fun fillna0 :: "npfloat \<Rightarrow> npfloat" where
  "fillna0 NaN = Fin 0"
| "fillna0 v = v"

fun np_abs :: "npfloat \<Rightarrow> npfloat" where
  "np_abs (Fin r) = Fin \<bar>r\<bar>"
| "np_abs PosInf = PosInf"
| "np_abs NegInf = PosInf"
| "np_abs NaN = NaN"

fun is_finite :: "npfloat \<Rightarrow> bool" where
  "is_finite (Fin r) = True"
| "is_finite v = False"

text \<open>The comparison \<open>a \<le> b\<close> of floats: false as soon as one side is not a number.\<close>

fun np_le :: "npfloat \<Rightarrow> npfloat \<Rightarrow> bool" where
  "np_le NaN b = False"
| "np_le a NaN = False"
| "np_le NegInf b = True"
| "np_le a PosInf = True"
| "np_le (Fin a) (Fin b) = (a \<le> b)"
| "np_le a b = False"

definition mean :: "real list \<Rightarrow> real" where
  "mean xs = sum_list xs / real (length xs)"

subsection \<open>Drought index (\<open>_calculate_drought_index\<close>)\<close>

text \<open>
  \<open>rolling(window, min_periods=1).mean()\<close> at position \<open>i\<close> is the mean of the last
  \<open>window\<close> values up to \<open>i\<close> (of all \<open>i + 1\<close> values while fewer are there);
  \<open>expanding().mean()\<close> is the mean of all values up to \<open>i\<close>.
\<close>

definition rolling_mean_at :: "nat \<Rightarrow> real list \<Rightarrow> nat \<Rightarrow> real" where
  "rolling_mean_at w xs i = mean (drop (Suc i - w) (take (Suc i) xs))"

definition expanding_mean_at :: "real list \<Rightarrow> nat \<Rightarrow> real" where
  "expanding_mean_at xs i = mean (take (Suc i) xs)"

definition rolling_mean :: "nat \<Rightarrow> real list \<Rightarrow> real list" where
  "rolling_mean w xs = map (rolling_mean_at w xs) [0..<length xs]"

definition expanding_mean :: "real list \<Rightarrow> real list" where
  "expanding_mean xs = map (expanding_mean_at xs) [0..<length xs]"

text \<open>The decimal digits of an integer, as an error message of pandas writes them.\<close>

function show_nat :: "nat \<Rightarrow> string" where
  "show_nat n =
     (if n < 10 then [''0123456789'' ! n]
      else show_nat (n div 10) @ [''0123456789'' ! (n mod 10)])"
  by pat_completeness auto
termination
  by (relation "measure (\<lambda>n. n)") auto

declare show_nat.simps [simp del]

definition show_int :: "int \<Rightarrow> string" where
  "show_int i = (if i < 0 then CHR ''-'' # show_nat (nat (- i)) else show_nat (nat i))"

text \<open>
  pandas refuses a window below \<open>min_periods = 1\<close> with a \<open>ValueError\<close> that names the
  window, and a window that does not fit a signed 64-bit integer with an \<open>OverflowError\<close>.
  Otherwise the index is \<open>np.maximum(0, (long_term_avg - rolling_precip) / long_term_avg)\<close>,
  position by position, with not-a-number replaced by 0 at the end.
\<close>

definition calculate_drought_index :: "real list \<Rightarrow> int \<Rightarrow> error + npfloat list" where
  "calculate_drought_index precipitation window =
     (if window < 1
      then Inl (ValueError (''min_periods 1 must be <= window '' @ show_int window))
      else if 2 ^ 63 \<le> window then Inl OverflowError
      else
        let rolling_precip = rolling_mean (nat window) precipitation;
            long_term_avg = expanding_mean precipitation;
            drought_index = map2 (\<lambda>l r. np_maximum0 (np_div (l - r) l))
                              long_term_avg rolling_precip
        in Inr (map fillna0 drought_index))"

subsection \<open>The forecaster's state\<close>

text \<open>
  A feature table is a list of rows, each row the list of its feature values. The fitted
  objects come from scikit-learn, statsmodels and Keras, which are not part of the
  program: an object is what its calls return. A call may raise.
\<close>

type_synonym matrix = "real list list"

datatype scaler = Scaler (transform: "matrix \<Rightarrow> error + matrix")

datatype model =
    Regressor "matrix \<Rightarrow> error + real list"
  | ARIMAResults "real list"
  | Keras "matrix list \<Rightarrow> error + matrix"

text \<open>An estimator or scaler that was created and not fitted refuses every call.\<close>

definition unfitted_scaler :: scaler where
  "unfitted_scaler = Scaler (\<lambda>X. Inl NotFittedError)"

definition unfitted_regressor :: model where
  "unfitted_regressor = Regressor (\<lambda>X. Inl NotFittedError)"

text \<open>
  The attributes of the object that the operations below read or write. The dictionaries
  are association lists in insertion order, written with \<open>AList.update\<close> (the value of an
  existing key is replaced in place, a new key goes to the end). The attributes
  \<open>X_test\<close>, \<open>X_test_scaled\<close> and \<open>y_test\<close> do not exist before the first \<open>fit\<close>; they are read
  only behind the test of \<open>is_fitted\<close>.
\<close>

record forecaster =
  models :: "(string \<times> model option) list"
  scalers :: "(string \<times> scaler) list"
  ensemble_weights :: "(string \<times> real) list"
  is_fitted :: bool
  X_test :: matrix
  X_test_scaled :: matrix
  y_test :: "real list"

definition init :: forecaster where
  "init = \<lparr>models = [], scalers = [], ensemble_weights = [], is_fitted = False,
           X_test = [], X_test_scaled = [], y_test = []\<rparr>"

subsection \<open>Ensemble prediction (\<open>predict\<close>)\<close>

text \<open>An operand of an elementwise numpy operation against an array of length \<open>n\<close>: it
  has that length, or it has length one and is repeated; anything else is a \<open>ValueError\<close>.\<close>

definition broadcast_to :: "nat \<Rightarrow> real list \<Rightarrow> error + real list" where
  "broadcast_to n v =
     (if length v = n then Inr v
      else if length v = 1 then Inr (replicate n (hd v))
      else Inl (ValueError ''operands could not be broadcast together''))"

text \<open>\<open>acc += v\<close> on arrays: the shape of \<open>acc\<close> never changes.\<close>

definition np_iadd :: "real list \<Rightarrow> real list \<Rightarrow> error + real list" where
  "np_iadd acc v =
     (case broadcast_to (length acc) v of
        Inl e \<Rightarrow> Inl e
      | Inr v' \<Rightarrow> Inr (map2 (+) acc v'))"

text \<open>The calls made on a model inside the \<open>try\<close> block. A model of another kind than the
  one its key is given by \<open>fit\<close> has not the method or attribute asked for.\<close>

fun sk_predict :: "model \<Rightarrow> matrix \<Rightarrow> error + real list" where
  "sk_predict (Regressor f) X = f X"
| "sk_predict m X = Inl AttributeError"

text \<open>\<open>np.full(len(X), model.fittedvalues.iloc[-1])\<close>\<close>

fun arima_predict :: "model \<Rightarrow> nat \<Rightarrow> error + real list" where
  "arima_predict (ARIMAResults fittedvalues) n =
     (if fittedvalues = [] then Inl IndexError else Inr (replicate n (last fittedvalues)))"
| "arima_predict m n = Inl AttributeError"

text \<open>\<open>model.predict(X_scaled[:, np.newaxis, :])[:, 0]\<close>: every row becomes a window of one
  step, and the first column of the output is taken.\<close>

fun lstm_predict :: "model \<Rightarrow> matrix \<Rightarrow> error + real list" where
  "lstm_predict (Keras f) X_scaled =
     (case f (map (\<lambda>row. [row]) X_scaled) of
        Inl e \<Rightarrow> Inl e
      | Inr out \<Rightarrow> if list_ex (\<lambda>r. r = []) out then Inl IndexError else Inr (map hd out))"
| "lstm_predict m X_scaled = Inl AttributeError"

text \<open>The body of the \<open>try\<close>: \<open>None\<close> when no branch of the \<open>if\<close>/\<open>elif\<close> chain is taken
  (nothing is stored and nothing is raised).\<close>

definition model_predict ::
  "bool \<Rightarrow> string \<Rightarrow> model \<Rightarrow> matrix \<Rightarrow> matrix \<Rightarrow> (error + real list) option" where
  "model_predict TENSORFLOW_AVAILABLE name m X X_scaled =
     (if name \<in> set [''ridge'', ''elastic''] then Some (sk_predict m X_scaled)
      else if name \<in> set [''rf'', ''gb''] then Some (sk_predict m X)
      else if name = ''arima'' then Some (arima_predict m (length X))
      else if name = ''lstm'' \<and> TENSORFLOW_AVAILABLE then Some (lstm_predict m X_scaled)
      else None)"

text \<open>The loop over \<open>self.models.items()\<close>, with the dictionary \<open>predictions\<close> as
  accumulator: a model that is \<open>None\<close> is skipped, an exception is caught and the model
  left out.\<close>

fun predict_loop ::
  "bool \<Rightarrow> (string \<times> model option) list \<Rightarrow> matrix \<Rightarrow> matrix \<Rightarrow>
   (string \<times> real list) list \<Rightarrow> (string \<times> real list) list" where
  "predict_loop tfa [] X X_scaled predictions = predictions"
| "predict_loop tfa ((name, None) # ms) X X_scaled predictions =
     predict_loop tfa ms X X_scaled predictions"
| "predict_loop tfa ((name, Some m) # ms) X X_scaled predictions =
     (case model_predict tfa name m X X_scaled of
        Some (Inr pred) \<Rightarrow> predict_loop tfa ms X X_scaled (AList.update name pred predictions)
      | Some (Inl e) \<Rightarrow> predict_loop tfa ms X X_scaled predictions
      | None \<Rightarrow> predict_loop tfa ms X X_scaled predictions)"

text \<open>\<open>self.ensemble_weights.get(name, 0)\<close>\<close>

definition weight_of :: "(string \<times> real) list \<Rightarrow> string \<Rightarrow> real" where
  "weight_of weights name = (case map_of weights name of None \<Rightarrow> 0 | Some w \<Rightarrow> w)"

text \<open>The loop over \<open>predictions.items()\<close>, with \<open>ensemble_pred\<close> and \<open>total_weight\<close> as
  accumulators. The in-place addition is outside every \<open>try\<close>.\<close>

fun blend_loop ::
  "(string \<times> real) list \<Rightarrow> (string \<times> real list) list \<Rightarrow> real list \<Rightarrow> real \<Rightarrow>
   error + (real list \<times> real)" where
  "blend_loop weights [] ensemble_pred total_weight = Inr (ensemble_pred, total_weight)"
| "blend_loop weights ((name, pred) # ps) ensemble_pred total_weight =
     (let weight = weight_of weights name
      in case np_iadd ensemble_pred (map (\<lambda>p. weight * p) pred) of
           Inl e \<Rightarrow> Inl e
         | Inr ensemble_pred' \<Rightarrow> blend_loop weights ps ensemble_pred' (total_weight + weight))"

text \<open>\<open>TENSORFLOW_AVAILABLE\<close> is the module's global flag, passed as first argument.
  \<open>hasattr(self.scalers['standard'], 'transform')\<close> holds of every scaler object.\<close>

definition predict :: "bool \<Rightarrow> forecaster \<Rightarrow> matrix \<Rightarrow> error + real list" where
  "predict tfa self X =
     (if \<not> is_fitted self
      then Inl (ValueError ''Model must be fitted before making predictions'')
      else case map_of (scalers self) ''standard'' of
        None \<Rightarrow> Inl (KeyError ''standard'')
      | Some sc \<Rightarrow>
         (case transform sc X of
            Inl e \<Rightarrow> Inl e
          | Inr X_scaled \<Rightarrow>
             (let predictions = predict_loop tfa (models self) X X_scaled []
              in if predictions \<noteq> [] then
                   (case blend_loop (ensemble_weights self) predictions
                           (replicate (length X) 0) 0 of
                      Inl e \<Rightarrow> Inl e
                    | Inr (ensemble_pred, total_weight) \<Rightarrow>
                        Inr (if total_weight > 0
                             then map (\<lambda>p. p / total_weight) ensemble_pred
                             else ensemble_pred))
                 else Inl (ValueError ''No models available for prediction''))))"

text \<open>The predictions that the loop of \<open>predict\<close> collects on \<open>X\<close>: the models whose
  prediction call succeeded, each with what it returned. \<open>None\<close> when \<open>predict\<close> does
  not reach the loop.\<close>

definition produced :: "bool \<Rightarrow> forecaster \<Rightarrow> matrix \<Rightarrow> (string \<times> real list) list option" where
  "produced tfa self X =
     (if \<not> is_fitted self then None
      else case map_of (scalers self) ''standard'' of
        None \<Rightarrow> None
      | Some sc \<Rightarrow>
         (case transform sc X of
            Inl e \<Rightarrow> None
          | Inr X_scaled \<Rightarrow> Some (predict_loop tfa (models self) X X_scaled [])))"

subsection \<open>Evaluation (\<open>evaluate\<close>)\<close>

text \<open>The three metrics of scikit-learn are calls into the library: each returns a
  float or raises.\<close>

record sk_metrics =
  mean_absolute_error :: "real list \<Rightarrow> real list \<Rightarrow> error + npfloat"
  mean_squared_error :: "real list \<Rightarrow> real list \<Rightarrow> error + npfloat"
  r2_score :: "real list \<Rightarrow> real list \<Rightarrow> error + npfloat"

record metrics =
  MAE :: npfloat
  RMSE :: npfloat
  R2 :: npfloat
  MAPE :: npfloat

fun np_sqrt :: "npfloat \<Rightarrow> npfloat" where
  "np_sqrt (Fin r) = (if r < 0 then NaN else Fin (sqrt r))"
| "np_sqrt PosInf = PosInf"
| "np_sqrt NegInf = NaN"
| "np_sqrt NaN = NaN"

fun np_times :: "npfloat \<Rightarrow> real \<Rightarrow> npfloat" where
  "np_times (Fin r) c = Fin (r * c)"
| "np_times v c = (if c = 0 then NaN else if 0 < c then v
                   else (case v of PosInf \<Rightarrow> NegInf | NegInf \<Rightarrow> PosInf | w \<Rightarrow> w))"

fun the_fin :: "npfloat \<Rightarrow> real" where
  "the_fin (Fin r) = r"
| "the_fin v = 0"

text \<open>The mean of a pandas series, to which \<open>np.mean\<close> hands over: values that are not a
  number are skipped, and the mean of nothing is not a number.\<close>

definition series_mean :: "npfloat list \<Rightarrow> npfloat" where
  "series_mean vs =
     (let present = filter (\<lambda>v. v \<noteq> NaN) vs
      in if present = [] then NaN
         else if PosInf \<in> set present \<and> NegInf \<in> set present then NaN
         else if PosInf \<in> set present then PosInf
         else if NegInf \<in> set present then NegInf
         else Fin (mean (map the_fin present)))"

text \<open>\<open>np.abs((self.y_test - y_pred) / self.y_test)\<close>, one term for each held-out price.
  The quotient divides by the actual price with no test of it.\<close>

definition mape_terms :: "real list \<Rightarrow> real list \<Rightarrow> error + npfloat list" where
  "mape_terms actual y_pred =
     (case broadcast_to (length actual) y_pred of
        Inl e \<Rightarrow> Inl e
      | Inr p \<Rightarrow> Inr (map2 (\<lambda>a b. np_abs (np_div (a - b) a)) actual p))"

definition mape :: "real list \<Rightarrow> real list \<Rightarrow> error + npfloat" where
  "mape actual y_pred =
     (case mape_terms actual y_pred of
        Inl e \<Rightarrow> Inl e
      | Inr terms \<Rightarrow> Inr (np_times (series_mean terms) 100))"

definition evaluate :: "bool \<Rightarrow> sk_metrics \<Rightarrow> forecaster \<Rightarrow> error + metrics" where
  "evaluate tfa sk self =
     (if \<not> is_fitted self then Inl (ValueError ''Model must be fitted before evaluation'')
      else case predict tfa self (X_test self) of
        Inl e \<Rightarrow> Inl e
      | Inr y_pred \<Rightarrow>
         (case mean_absolute_error sk (y_test self) y_pred of
            Inl e \<Rightarrow> Inl e
          | Inr mae \<Rightarrow>
             (case mean_squared_error sk (y_test self) y_pred of
                Inl e \<Rightarrow> Inl e
              | Inr mse \<Rightarrow>
                 (case r2_score sk (y_test self) y_pred of
                    Inl e \<Rightarrow> Inl e
                  | Inr r2 \<Rightarrow>
                     (case mape (y_test self) y_pred of
                        Inl e \<Rightarrow> Inl e
                      | Inr m \<Rightarrow> Inr \<lparr>MAE = mae, RMSE = np_sqrt mse, R2 = r2, MAPE = m\<rparr>)))))"

subsection \<open>Training (\<open>fit\<close>, \<open>_calculate_ensemble_weights\<close>)\<close>

text \<open>
  An observation is a row of the input table: its date, the target price and the
  weather attributes. A date is a whole day, counted from 1970-01-01; the timestamps of
  pandas end on the day \<open>last_day\<close> (2262-04-11).

  The feature construction, the split, the scaler and the
  trainers are library calls, collected in the record \<open>library\<close>; the arguments
  \<open>target_col\<close> and \<open>test_size\<close> of \<open>fit\<close> only reach these calls.
  \<^item> \<open>prepare_and_split\<close> is \<open>prepare_data\<close> followed by \<open>train_test_split\<close>;
  \<^item> \<open>scaler_fit_transform\<close> is \<open>StandardScaler().fit_transform\<close>, giving the fitted scaler
    and the scaled training rows;
  \<^item> \<open>fit_rf\<close>, \<open>fit_gb\<close>, \<open>fit_ridge\<close>, \<open>fit_elastic\<close> are the \<open>fit\<close> calls of the four
    regressors, \<open>fit_arima\<close> builds and fits the ARIMA model on the price series of the
    table, \<open>build_lstm_model\<close> builds and trains the sequence model;
  \<^item> \<open>cross_val_score\<close> returns the scores of the folds, a score being not a number
    (\<open>None\<close>) for a fold whose fit failed;
  \<^item> \<open>feature_row\<close> gives the feature values of the last row of a table (lags, trailing
    means, calendar encodings: each a function of the rows up to that one, a missing
    value being \<open>None\<close>), restricted to the feature columns;
  \<^item> \<open>future_weather n i\<close> is the weather drawn for day \<open>i\<close> of a horizon of \<open>n\<close> days,
    with its derived attributes.
\<close>

record obs =
  date :: int
  commodity_price :: real
  weather :: "real list"

record split =
  train_X :: matrix
  test_X :: matrix
  train_y :: "real list"
  test_y :: "real list"

record library =
  prepare_and_split :: "obs list \<Rightarrow> error + split"
  scaler_fit_transform :: "matrix \<Rightarrow> error + scaler \<times> matrix"
  fit_rf :: "matrix \<Rightarrow> real list \<Rightarrow> error + model"
  fit_gb :: "matrix \<Rightarrow> real list \<Rightarrow> error + model"
  fit_ridge :: "matrix \<Rightarrow> real list \<Rightarrow> error + model"
  fit_elastic :: "matrix \<Rightarrow> real list \<Rightarrow> error + model"
  fit_arima :: "obs list \<Rightarrow> error + model"
  build_lstm_model :: "matrix \<Rightarrow> real list \<Rightarrow> error + model"
  cross_val_score :: "model \<Rightarrow> matrix \<Rightarrow> real list \<Rightarrow> error + real option list"
  feature_row :: "obs list \<Rightarrow> real option list"
  future_weather :: "nat \<Rightarrow> nat \<Rightarrow> real list"

text \<open>\<open>np.mean\<close> of an array of scores: not a number when a score is, or when there is
  no score.\<close>

definition np_mean :: "real option list \<Rightarrow> real option" where
  "np_mean scores =
     (if scores = [] \<or> None \<in> set scores then None else Some (mean (map the scores)))"

text \<open>Python's \<open>max(0, score)\<close>: the score when \<open>score > 0\<close> holds, else 0; the comparison
  fails for not-a-number.\<close>

fun py_max0 :: "real option \<Rightarrow> real" where
  "py_max0 None = 0"
| "py_max0 (Some s) = (if s > 0 then s else 0)"

text \<open>The loop of \<open>_calculate_ensemble_weights\<close> over \<open>self.models.items()\<close>, with the
  dictionary \<open>cv_scores\<close> as accumulator.\<close>

fun cv_loop ::
  "library \<Rightarrow> (string \<times> model option) list \<Rightarrow> matrix \<Rightarrow> matrix \<Rightarrow> real list \<Rightarrow>
   (string \<times> real option) list \<Rightarrow> (string \<times> real option) list" where
  "cv_loop lib [] X_train X_train_scaled y_train cv_scores = cv_scores"
| "cv_loop lib ((name, None) # ms) X_train X_train_scaled y_train cv_scores =
     cv_loop lib ms X_train X_train_scaled y_train cv_scores"
| "cv_loop lib ((name, Some m) # ms) X_train X_train_scaled y_train cv_scores =
     (if name \<in> set [''ridge'', ''elastic''] then
        cv_loop lib ms X_train X_train_scaled y_train
          (AList.update name
             (case cross_val_score lib m X_train_scaled y_train of
                Inl e \<Rightarrow> Some 0 | Inr scores \<Rightarrow> np_mean scores) cv_scores)
      else if name = ''arima'' then cv_loop lib ms X_train X_train_scaled y_train cv_scores
      else if name = ''lstm'' then cv_loop lib ms X_train X_train_scaled y_train cv_scores
      else
        cv_loop lib ms X_train X_train_scaled y_train
          (AList.update name
             (case cross_val_score lib m X_train y_train of
                Inl e \<Rightarrow> Some 0 | Inr scores \<Rightarrow> np_mean scores) cv_scores))"

definition normalize_weights :: "(string \<times> real option) list \<Rightarrow> (string \<times> real) list" where
  "normalize_weights cv_scores =
     (let total_score = sum_list (map (\<lambda>(name, score). py_max0 score) cv_scores)
      in if total_score > 0
         then map (\<lambda>(name, score). (name, py_max0 score / total_score)) cv_scores
         else map (\<lambda>(name, score). (name, 1 / real (length cv_scores))) cv_scores)"

definition calculate_ensemble_weights ::
  "library \<Rightarrow> matrix \<Rightarrow> matrix \<Rightarrow> real list \<Rightarrow> forecaster \<Rightarrow> forecaster" where
  "calculate_ensemble_weights lib X_train X_train_scaled y_train self =
     self\<lparr>ensemble_weights :=
       normalize_weights (cv_loop lib (models self) X_train X_train_scaled y_train [])\<rparr>"

definition set_model :: "string \<Rightarrow> model option \<Rightarrow> forecaster \<Rightarrow> forecaster" where
  "set_model name m self = self\<lparr>models := AList.update name m (models self)\<rparr>"

definition set_scaler :: "string \<Rightarrow> scaler \<Rightarrow> forecaster \<Rightarrow> forecaster" where
  "set_scaler name sc self = self\<lparr>scalers := AList.update name sc (scalers self)\<rparr>"

text \<open>The two guarded trainers: every exception is caught and the entry set to \<open>None\<close>.\<close>

definition train_arima :: "library \<Rightarrow> obs list \<Rightarrow> forecaster \<Rightarrow> forecaster" where
  "train_arima lib df self =
     (case fit_arima lib df of
        Inl e \<Rightarrow> set_model ''arima'' None self
      | Inr m \<Rightarrow> set_model ''arima'' (Some m) self)"

definition train_lstm :: "bool \<Rightarrow> library \<Rightarrow> matrix \<Rightarrow> real list \<Rightarrow> forecaster \<Rightarrow> forecaster" where
  "train_lstm tfa lib X_train_scaled y_train self =
     (if tfa then
        (case build_lstm_model lib X_train_scaled y_train of
           Inl e \<Rightarrow> set_model ''lstm'' None self
         | Inr m \<Rightarrow> set_model ''lstm'' (Some m) self)
      else self)"

text \<open>The end of \<open>fit\<close>, from the ARIMA model on: nothing here raises. (The feature
  importances of the fitted random forest go to an attribute that no operation below
  reads.)\<close>

definition finish_fit ::
  "bool \<Rightarrow> library \<Rightarrow> obs list \<Rightarrow> split \<Rightarrow> matrix \<Rightarrow> matrix \<Rightarrow> forecaster \<Rightarrow> forecaster" where
  "finish_fit tfa lib df sp X_train_scaled Xs_test self =
     (let self = train_arima lib df self;
          self = train_lstm tfa lib X_train_scaled (train_y sp) self;
          self = calculate_ensemble_weights lib (train_X sp) X_train_scaled (train_y sp) self;
          self = self\<lparr>X_test := test_X sp, X_test_scaled := Xs_test,
                      y_test := test_y sp\<rparr>
      in self\<lparr>is_fitted := True\<rparr>)"

text \<open>
  \<open>fit\<close> returns the exception it raised (\<open>None\<close> when it returned) and the object as it
  has left it. Only the ARIMA and the sequence model are trained under a \<open>try\<close>; each of
  the four regressors is stored before it is fitted, and an exception of its \<open>fit\<close> call
  leaves \<open>fit\<close> with the object as it is then.
\<close>

definition fit :: "bool \<Rightarrow> library \<Rightarrow> obs list \<Rightarrow> forecaster \<Rightarrow> error option \<times> forecaster" where
  "fit tfa lib df self =
     (case prepare_and_split lib df of
        Inl e \<Rightarrow> (Some e, self)
      | Inr sp \<Rightarrow>
         (let self = set_scaler ''minmax'' unfitted_scaler
                       (set_scaler ''standard'' unfitted_scaler self)
          in case scaler_fit_transform lib (train_X sp) of
            Inl e \<Rightarrow> (Some e, self)
          | Inr (sc, X_train_scaled) \<Rightarrow>
             (let self = set_scaler ''standard'' sc self
              in case transform sc (test_X sp) of
                Inl e \<Rightarrow> (Some e, self)
              | Inr Xs_test \<Rightarrow>
                 (let self = set_model ''rf'' (Some unfitted_regressor) self
                  in case fit_rf lib (train_X sp) (train_y sp) of
                    Inl e \<Rightarrow> (Some e, self)
                  | Inr rf \<Rightarrow>
                 (let self = set_model ''gb'' (Some unfitted_regressor)
                               (set_model ''rf'' (Some rf) self)
                  in case fit_gb lib (train_X sp) (train_y sp) of
                    Inl e \<Rightarrow> (Some e, self)
                  | Inr gb \<Rightarrow>
                 (let self = set_model ''ridge'' (Some unfitted_regressor)
                               (set_model ''gb'' (Some gb) self)
                  in case fit_ridge lib X_train_scaled (train_y sp) of
                    Inl e \<Rightarrow> (Some e, self)
                  | Inr ridge \<Rightarrow>
                 (let self = set_model ''elastic'' (Some unfitted_regressor)
                               (set_model ''ridge'' (Some ridge) self)
                  in case fit_elastic lib X_train_scaled (train_y sp) of
                    Inl e \<Rightarrow> (Some e, self)
                  | Inr elastic \<Rightarrow>
                      (None, finish_fit tfa lib df sp X_train_scaled Xs_test
                               (set_model ''elastic'' (Some elastic) self)))))))))"

subsection \<open>Forecast (\<open>forecast_future\<close>)\<close>

text \<open>\<open>create_features\<close> adds columns and keeps the rows: one feature row for each row
  of the table, computed from the rows up to it.\<close>

definition create_features :: "library \<Rightarrow> obs list \<Rightarrow> real option list list" where
  "create_features lib df = map (\<lambda>i. feature_row lib (take (Suc i) df)) [0..<length df]"

text \<open>\<open>iloc[-n:]\<close>: the last \<open>n\<close> rows, and all rows when \<open>n\<close> is 0, since \<open>-0\<close> is 0.\<close>

definition iloc_tail :: "nat \<Rightarrow> 'a list \<Rightarrow> 'a list" where
  "iloc_tail n rows = (if n = 0 then rows else drop (length rows - n) rows)"

text \<open>\<open>fillna(method='ffill')\<close> takes a missing value from the row above, column by
  column; \<open>fillna(0)\<close> then replaces what is still missing.\<close>

definition fill_from :: "real option list \<Rightarrow> real option list \<Rightarrow> real option list" where
  "fill_from prev row =
     map (\<lambda>j. case row ! j of
                 Some v \<Rightarrow> Some v
               | None \<Rightarrow> (if j < length prev then prev ! j else None))
       [0..<length row]"

fun ffill :: "real option list \<Rightarrow> real option list list \<Rightarrow> real option list list" where
  "ffill prev [] = []"
| "ffill prev (row # rows) = fill_from prev row # ffill (fill_from prev row) rows"

definition fillna_zero :: "real option list list \<Rightarrow> matrix" where
  "fillna_zero rows = map (map (\<lambda>v. case v of None \<Rightarrow> 0 | Some x \<Rightarrow> x)) rows"

text \<open>
  \<open>forecast_df['predicted_price'] = future_predictions\<close> on the table of the future dates.
  pandas gives a table without rows the index of the values assigned (its dates are then
  missing, \<open>None\<close>), and refuses every other difference of lengths.
\<close>

definition set_predicted_price ::
  "int list \<Rightarrow> real list \<Rightarrow> error + (int option \<times> real) list" where
  "set_predicted_price future_dates future_predictions =
     (if future_dates = [] \<and> future_predictions \<noteq> []
      then Inr (map (\<lambda>p. (None, p)) future_predictions)
      else if length future_predictions = length future_dates
      then Inr (zip (map Some future_dates) future_predictions)
      else Inl (ValueError ''Length of values does not match length of index''))"

text \<open>\<open>pd.date_range(start, periods=n, freq='D')\<close>\<close>

definition date_range :: "int \<Rightarrow> nat \<Rightarrow> int list" where
  "date_range start periods = map (\<lambda>i. start + int i) [0..<periods]"

text \<open>
  The rows appended for the future: the dates after the last date of the table, the
  weather drawn for them, and the last known price as placeholder. The features of the
  future are the last \<open>n\<close> feature rows of the table so extended, filled.
\<close>

definition future_df :: "library \<Rightarrow> obs list \<Rightarrow> nat \<Rightarrow> obs list" where
  "future_df lib df n =
     (let last_date = Max (set (map date df));
          last_price = commodity_price (last df);
          future_dates = date_range (last_date + 1) n
      in map (\<lambda>i. \<lparr>date = future_dates ! i, commodity_price = last_price,
                    weather = future_weather lib n i\<rparr>) [0..<n])"

definition future_features :: "library \<Rightarrow> obs list \<Rightarrow> nat \<Rightarrow> matrix" where
  "future_features lib df n =
     (let combined_df = df @ future_df lib df n;
          combined_features = create_features lib combined_df
      in fillna_zero (ffill [] (iloc_tail n combined_features)))"

text \<open>
  The result is the table of the columns \<open>date\<close> and \<open>predicted_price\<close>. On a table
  without rows \<open>iloc[-1]\<close> raises. The day after the last date must be a timestamp
  (\<open>last_date + timedelta(days=1)\<close>); \<open>pd.date_range\<close> turns the number of periods into an
  unsigned 64-bit integer, which numpy refuses with an \<open>OverflowError\<close> for a negative or
  too large number, and refuses a range whose end is past the last timestamp.
\<close>

definition last_day :: int where
  "last_day = 106751"

definition forecast_future ::
  "bool \<Rightarrow> library \<Rightarrow> forecaster \<Rightarrow> obs list \<Rightarrow> int \<Rightarrow> error + (int option \<times> real) list" where
  "forecast_future tfa lib self df n_days =
     (if \<not> is_fitted self then Inl (ValueError ''Model must be fitted before forecasting'')
      else if df = [] then Inl IndexError
      else if last_day < Max (set (map date df)) + 1 then Inl OutOfBoundsDatetime
      else if n_days < 0 \<or> 2 ^ 64 \<le> n_days then Inl OverflowError
      else if last_day < Max (set (map date df)) + 1 + n_days then Inl OutOfBoundsDatetime
      else
        case predict tfa self (future_features lib df (nat n_days)) of
          Inl e \<Rightarrow> Inl e
        | Inr future_predictions \<Rightarrow>
            set_predicted_price (date_range (Max (set (map date df)) + 1) (nat n_days))
              future_predictions)"

subsection \<open>Sequences of calls, and a concrete library\<close>

text \<open>Calls of \<open>fit\<close> one after the other on the same object: the exceptions raised
  (\<open>None\<close> for a call that returned) and the object at the end.\<close>

fun fit_all ::
  "bool \<Rightarrow> (library \<times> obs list) list \<Rightarrow> forecaster \<Rightarrow> error option list \<times> forecaster" where
  "fit_all tfa [] self = ([], self)"
| "fit_all tfa ((lib, df) # calls) self =
     (case fit tfa lib df self of
        (r, self') \<Rightarrow> (case fit_all tfa calls self' of (rs, self'') \<Rightarrow> (r # rs, self'')))"

text \<open>What the libraries promise of the arrays they return: one prediction for each
  row of the input.\<close>

definition shapes_agree :: "matrix \<Rightarrow> (string \<times> real list) list \<Rightarrow> bool" where
  "shapes_agree X predictions = list_all (\<lambda>(name, pred). length pred = length X) predictions"

text \<open>The weighted sum of the predictions at row \<open>i\<close>, and the sum of the weights of the
  models that predicted.\<close>

definition weighted_sum_at :: "(string \<times> real) list \<Rightarrow> (string \<times> real list) list \<Rightarrow> nat \<Rightarrow> real" where
  "weighted_sum_at weights predictions i =
     sum_list (map (\<lambda>(name, pred). weight_of weights name * pred ! i) predictions)"

definition weights_used :: "(string \<times> real) list \<Rightarrow> (string \<times> real list) list \<Rightarrow> real" where
  "weights_used weights predictions =
     sum_list (map (\<lambda>(name, pred). weight_of weights name) predictions)"

text \<open>
  A small library to run the program on: the features of a row are its weather
  attributes, the last row is held out, the scaler halves every value, a regressor
  refuses rows that have not one feature, the ARIMA fit keeps the prices, and every fold
  of every cross-validation has the scores 1/2, 1/4 and 3/4.
\<close>

definition demo_scaler :: scaler where
  "demo_scaler = Scaler (\<lambda>X. Inr (map (map (\<lambda>v. v / 2)) X))"

definition demo_regressor :: "real \<Rightarrow> real \<Rightarrow> model" where
  "demo_regressor a b =
     Regressor (\<lambda>X. if list_all (\<lambda>row. length row = 1) X
                     then Inr (map (\<lambda>row. a * sum_list row + b) X)
                     else Inl (ValueError ''X has a different number of features''))"

definition demo_library :: library where
  "demo_library =
     \<lparr>prepare_and_split = (\<lambda>df.
          if length df < 2 then Inl (ValueError ''not enough samples'')
          else Inr \<lparr>train_X = map weather (butlast df), test_X = [weather (last df)],
                    train_y = map commodity_price (butlast df),
                    test_y = [commodity_price (last df)]\<rparr>),
       scaler_fit_transform = (\<lambda>X. Inr (demo_scaler, map (map (\<lambda>v. v / 2)) X)),
       fit_rf = (\<lambda>X y. Inr (demo_regressor 1 0)),
       fit_gb = (\<lambda>X y. Inr (demo_regressor 1 2)),
       fit_ridge = (\<lambda>X y. Inr (demo_regressor 2 0)),
       fit_elastic = (\<lambda>X y. Inr (demo_regressor 2 4)),
       fit_arima = (\<lambda>df. Inr (ARIMAResults (map commodity_price df))),
       build_lstm_model = (\<lambda>X y. Inl (LibraryError ''training failed'')),
       cross_val_score = (\<lambda>m X y. Inr [Some (1 / 2), Some (1 / 4), Some (3 / 4)]),
       feature_row = (\<lambda>rows. map Some (weather (last rows))),
       future_weather = (\<lambda>n i. [real i])\<rparr>"

definition demo_metrics :: sk_metrics where
  "demo_metrics =
     \<lparr>mean_absolute_error = (\<lambda>y p. Inr (Fin (mean (map2 (\<lambda>a b. \<bar>a - b\<bar>) y p)))),
       mean_squared_error = (\<lambda>y p. Inr (Fin (mean (map2 (\<lambda>a b. (a - b) * (a - b)) y p)))),
       r2_score = (\<lambda>y p. Inr NaN)\<rparr>"

definition demo_df :: "real \<Rightarrow> obs list" where
  "demo_df last_price =
     [\<lparr>date = 1, commodity_price = 20, weather = [2]\<rparr>,
      \<lparr>date = 2, commodity_price = 40, weather = [4]\<rparr>,
      \<lparr>date = 3, commodity_price = last_price, weather = [8]\<rparr>]"

text \<open>The object after one \<open>fit\<close> on the three rows, the last price being the argument.\<close>

definition demo_fitted :: "real \<Rightarrow> forecaster" where
  "demo_fitted last_price = snd (fit False demo_library (demo_df last_price) init)"

text \<open>The same library with a random forest whose training fails, and with an ARIMA
  model whose training fails.\<close>

definition demo_library_rf_fails :: library where
  "demo_library_rf_fails =
     demo_library\<lparr>fit_rf := (\<lambda>X y. Inl (LibraryError ''training failed''))\<rparr>"

definition demo_library_arima_fails :: library where
  "demo_library_arima_fails =
     demo_library\<lparr>fit_arima := (\<lambda>df. Inl (LibraryError ''no convergence''))\<rparr>"

definition demo_fitted_no_arima :: forecaster where
  "demo_fitted_no_arima = snd (fit True demo_library_arima_fails (demo_df 80) init)"

text \<open>The same library with a cross-validation whose scores depend on the model: the
  random forest has the scores 1/2, 1/4 and 3/4, the gradient boosting -1, -1/2 and 0,
  the cross-validation of the ridge regression raises, and the elastic net has three
  times 1/4. (A model is told by what it predicts for the row of the feature 1.)\<close>

definition demo_library_scores :: library where
  "demo_library_scores =
     demo_library\<lparr>cross_val_score := (\<lambda>m X y.
        if sk_predict m [[1]] = Inr [1] then Inr [Some (1 / 2), Some (1 / 4), Some (3 / 4)]
        else if sk_predict m [[1]] = Inr [3] then Inr [Some (- 1), Some (- 1 / 2), Some 0]
        else if sk_predict m [[1]] = Inr [2] then Inl (LibraryError ''fold failed'')
        else Inr [Some (1 / 4), Some (1 / 4), Some (1 / 4)])\<rparr>"

definition demo_fitted_scores :: forecaster where
  "demo_fitted_scores = snd (fit False demo_library_scores (demo_df 80) init)"

subsection \<open>Names for the statements\<close>

text \<open>The score that the loop of \<open>_calculate_ensemble_weights\<close> stores for a model that
  it scores: the mean of the fold scores on the rows chosen for its name, and 0 when the
  cross-validation raised.\<close>

definition cv_entry :: "library \<Rightarrow> string \<Rightarrow> model \<Rightarrow> matrix \<Rightarrow> matrix \<Rightarrow> real list \<Rightarrow> real option" where
  "cv_entry lib name m X Xs y =
     (case cross_val_score lib m (if name \<in> set [''ridge'', ''elastic''] then Xs else X) y of
        Inl e \<Rightarrow> Some 0 | Inr scores \<Rightarrow> np_mean scores)"

text \<open>The object when the four regressors of \<open>fit\<close> are fitted: the assignments of
  \<open>fit\<close> up to the ARIMA model, in their order.\<close>

definition regressors_stored ::
  "model \<Rightarrow> model \<Rightarrow> model \<Rightarrow> model \<Rightarrow> scaler \<Rightarrow> forecaster \<Rightarrow> forecaster" where
  "regressors_stored rf gb ridge elastic sc self =
     set_model ''elastic'' (Some elastic) (set_model ''elastic'' (Some unfitted_regressor)
       (set_model ''ridge'' (Some ridge) (set_model ''ridge'' (Some unfitted_regressor)
         (set_model ''gb'' (Some gb) (set_model ''gb'' (Some unfitted_regressor)
           (set_model ''rf'' (Some rf) (set_model ''rf'' (Some unfitted_regressor)
             (set_scaler ''standard'' sc (set_scaler ''minmax'' unfitted_scaler
               (set_scaler ''standard'' unfitted_scaler self))))))))))"

section \<open>Properties\<close>

subsection \<open>The blend of \<open>predict\<close>\<close>

lemma broadcast_same: "length v = n \<Longrightarrow> broadcast_to n v = Inr v"
  by (simp add: broadcast_to_def)

lemma broadcast_length: "broadcast_to n v = Inr v' \<Longrightarrow> length v' = n"
  by (auto simp: broadcast_to_def split: if_splits)

lemma np_iadd_length: "np_iadd acc v = Inr acc' \<Longrightarrow> length acc' = length acc"
  by (auto simp: np_iadd_def split: sum.splits dest: broadcast_length)

lemma np_iadd_same: "length v = length acc \<Longrightarrow> np_iadd acc v = Inr (map2 (+) acc v)"
  by (simp add: np_iadd_def broadcast_same)

lemma blend_loop_length:
  "blend_loop weights ps acc tw = Inr (acc', tw') \<Longrightarrow> length acc' = length acc"
proof (induction ps arbitrary: acc tw)
  case Nil
  then show ?case by simp
next
  case (Cons a ps)
  obtain name pred where a: "a = (name, pred)" by (cases a)
  from Cons.prems obtain acc1 where
    s1: "np_iadd acc (map (\<lambda>p. weight_of weights name * p) pred) = Inr acc1" and
    s2: "blend_loop weights ps acc1 (tw + weight_of weights name) = Inr (acc', tw')"
    by (auto simp: a Let_def split: sum.splits)
  from Cons.IH[OF s2] np_iadd_length[OF s1] show ?case by simp
qed

lemma blend_loop_value:
  assumes "shapes_agree X ps" "length acc = length X"
  shows "blend_loop weights ps acc tw =
           Inr (map (\<lambda>i. acc ! i + weighted_sum_at weights ps i) [0..<length X],
                tw + weights_used weights ps)"
  using assms
proof (induction ps arbitrary: acc tw)
  case Nil
  have "map ((!) acc) [0..<length acc] = acc" by (rule map_nth)
  with Nil show ?case
    by (simp add: weighted_sum_at_def weights_used_def)
next
  case (Cons a ps)
  obtain name pred where a: "a = (name, pred)" by (cases a)
  let ?w = "weight_of weights name"
  let ?acc1 = "map2 (+) acc (map (\<lambda>p. ?w * p) pred)"
  from Cons.prems have len: "length pred = length X" and rest: "shapes_agree X ps"
    by (simp_all add: shapes_agree_def a)
  have s1: "np_iadd acc (map (\<lambda>p. ?w * p) pred) = Inr ?acc1"
    using len Cons.prems(2) by (simp add: np_iadd_same)
  have l1: "length ?acc1 = length X" using len Cons.prems(2) by simp
  have "blend_loop weights (a # ps) acc tw = blend_loop weights ps ?acc1 (tw + ?w)"
    by (simp add: a s1 Let_def)
  also have "\<dots> = Inr (map (\<lambda>i. ?acc1 ! i + weighted_sum_at weights ps i) [0..<length X],
                        tw + ?w + weights_used weights ps)"
    by (rule Cons.IH[OF rest l1])
  also have "map (\<lambda>i. ?acc1 ! i + weighted_sum_at weights ps i) [0..<length X] =
             map (\<lambda>i. acc ! i + weighted_sum_at weights (a # ps) i) [0..<length X]"
    using len Cons.prems(2) by (simp add: weighted_sum_at_def a)
  also have "tw + ?w + weights_used weights ps = tw + weights_used weights (a # ps)"
    by (simp add: weights_used_def a)
  finally show ?case .
qed

lemma predict_produced:
  assumes "produced tfa self X = Some ps"
  shows "predict tfa self X =
     (if ps \<noteq> [] then
        (case blend_loop (ensemble_weights self) ps (replicate (length X) 0) 0 of
           Inl e \<Rightarrow> Inl e
         | Inr (ensemble_pred, total_weight) \<Rightarrow>
             Inr (if total_weight > 0 then map (\<lambda>p. p / total_weight) ensemble_pred
                  else ensemble_pred))
      else Inl (ValueError ''No models available for prediction''))"
  using assms
  by (auto simp: produced_def predict_def Let_def split: if_splits option.splits sum.splits)

lemma predict_no_produced:
  assumes "produced tfa self X = None"
  shows "\<exists>e. predict tfa self X = Inl e"
  using assms
  by (auto simp: produced_def predict_def Let_def split: if_splits option.splits sum.splits)

lemma predict_returns_produced:
  assumes "predict tfa self X = Inr ys"
  shows "\<exists>ps. produced tfa self X = Some ps \<and> ps \<noteq> []"
  using assms
  by (auto simp: produced_def predict_def Let_def split: if_splits option.splits sum.splits)

lemma predict_length:
  assumes "predict tfa self X = Inr ys"
  shows "length ys = length X"
proof -
  from predict_returns_produced[OF assms] obtain ps where
    ps: "produced tfa self X = Some ps" "ps \<noteq> []" by blast
  from assms obtain acc tw where
    b: "blend_loop (ensemble_weights self) ps (replicate (length X) 0) 0 = Inr (acc, tw)"
    and ys: "ys = (if tw > 0 then map (\<lambda>p. p / tw) acc else acc)"
    by (auto simp: predict_produced[OF ps(1)] ps(2) split: sum.splits)
  from blend_loop_length[OF b] ys show ?thesis by simp
qed

lemma predict_value:
  assumes "produced tfa self X = Some ps" "ps \<noteq> []" "shapes_agree X ps"
  shows "predict tfa self X =
     Inr (if weights_used (ensemble_weights self) ps > 0
          then map (\<lambda>i. weighted_sum_at (ensemble_weights self) ps i /
                         weights_used (ensemble_weights self) ps) [0..<length X]
          else map (\<lambda>i. weighted_sum_at (ensemble_weights self) ps i) [0..<length X])"
  using assms(2)
  by (simp add: predict_produced[OF assms(1)]
        blend_loop_value[OF assms(3), of "replicate (length X) 0"] o_def)

subsection \<open>The ensemble weights\<close>

lemma py_max0_nonneg: "0 \<le> py_max0 s"
  by (cases s) auto

lemma sum_list_py_max0_nonneg: "0 \<le> sum_list (map (\<lambda>(name, score). py_max0 score) cv)"
  by (rule sum_list_nonneg) (auto simp: py_max0_nonneg)

lemma sum_list_divide_const:
  "sum_list (map (\<lambda>x. f x / c) xs) = sum_list (map f xs) / (c::real)"
  by (induction xs) (simp_all add: add_divide_distrib)

lemma normalize_weights_keys: "map fst (normalize_weights cv) = map fst cv"
  by (simp add: normalize_weights_def Let_def split_def o_def)

lemma normalize_weights_nonneg:
  assumes "w \<in> set (map snd (normalize_weights cv))"
  shows "0 \<le> w"
proof (cases "sum_list (map (\<lambda>(name, score). py_max0 score) cv) > 0")
  case True
  with assms show ?thesis
    by (auto simp: normalize_weights_def Let_def split_def py_max0_nonneg)
next
  case False
  with assms show ?thesis
    by (auto simp: normalize_weights_def Let_def split_def)
qed

lemma normalize_weights_sum:
  assumes "cv \<noteq> []"
  shows "sum_list (map snd (normalize_weights cv)) = 1"
proof (cases "sum_list (map (\<lambda>(name, score). py_max0 score) cv) > 0")
  case True
  let ?t = "sum_list (map (\<lambda>(name, score). py_max0 score) cv)"
  have "map snd (normalize_weights cv) = map (\<lambda>p. py_max0 (snd p) / ?t) cv"
    using True by (simp add: normalize_weights_def Let_def split_def o_def)
  then have "sum_list (map snd (normalize_weights cv)) = sum_list (map (\<lambda>p. py_max0 (snd p)) cv) / ?t"
    by (simp add: sum_list_divide_const)
  also have "sum_list (map (\<lambda>p. py_max0 (snd p)) cv) = ?t" by (simp add: split_def)
  finally show ?thesis using True by simp
next
  case False
  have "map snd (normalize_weights cv) = map (\<lambda>p. 1 / real (length cv)) cv"
    using False by (simp add: normalize_weights_def Let_def split_def o_def)
  then have "sum_list (map snd (normalize_weights cv)) = real (length cv) * (1 / real (length cv))"
    by (simp add: sum_list_triv)
  also have "\<dots> = 1" using assms by simp
  finally show ?thesis .
qed

lemma cv_loop_step:
  "cv_loop lib ((name, Some m) # ms) X Xs y acc =
     (if name = ''arima'' \<or> name = ''lstm'' then cv_loop lib ms X Xs y acc
      else cv_loop lib ms X Xs y (AList.update name (cv_entry lib name m X Xs y) acc))"
  by (simp add: cv_entry_def)

lemma cv_loop_keys:
  "fst ` set (cv_loop lib ms X Xs y acc) =
     fst ` set acc \<union> {name. name \<notin> {''arima'', ''lstm''} \<and> (\<exists>m. (name, Some m) \<in> set ms)}"
proof (induction ms arbitrary: acc)
  case Nil
  then show ?case by simp
next
  case (Cons a ms)
  obtain name mo where a: "a = (name, mo)" by (cases a)
  let ?S = "\<lambda>ms. {name. name \<notin> {''arima'', ''lstm''} \<and> (\<exists>m. (name, Some m) \<in> set ms)}"
  show ?case
  proof (cases mo)
    case None
    have "?S (a # ms) = ?S ms" by (auto simp: a None)
    then show ?thesis using Cons.IH[of acc] by (simp add: a None)
  next
    case (Some m)
    show ?thesis
    proof (cases "name = ''arima'' \<or> name = ''lstm''")
      case True
      have "?S (a # ms) = ?S ms" using True by (auto simp: a Some)
      moreover have "cv_loop lib (a # ms) X Xs y acc = cv_loop lib ms X Xs y acc"
        using True by (simp only: a Some cv_loop_step if_True)
      ultimately show ?thesis using Cons.IH[of acc] by simp
    next
      case False
      have "?S (a # ms) = insert name (?S ms)" using False by (auto simp: a Some)
      moreover have "cv_loop lib (a # ms) X Xs y acc =
          cv_loop lib ms X Xs y (AList.update name (cv_entry lib name m X Xs y) acc)"
        using False by (simp only: a Some cv_loop_step if_False)
      ultimately show ?thesis
        using Cons.IH[of "AList.update name (cv_entry lib name m X Xs y) acc"]
        by (simp add: dom_update)
    qed
  qed
qed

lemma cv_loop_distinct:
  "distinct (map fst acc) \<Longrightarrow> distinct (map fst (cv_loop lib ms X Xs y acc))"
proof (induction ms arbitrary: acc)
  case Nil
  then show ?case by simp
next
  case (Cons a ms)
  obtain name mo where a: "a = (name, mo)" by (cases a)
  show ?case
  proof (cases mo)
    case None
    then show ?thesis using Cons by (simp add: a)
  next
    case (Some m)
    show ?thesis
    proof (cases "name = ''arima'' \<or> name = ''lstm''")
      case True
      have "cv_loop lib (a # ms) X Xs y acc = cv_loop lib ms X Xs y acc"
        using True by (simp only: a Some cv_loop_step if_True)
      then show ?thesis using Cons by simp
    next
      case False
      have "cv_loop lib (a # ms) X Xs y acc =
          cv_loop lib ms X Xs y (AList.update name (cv_entry lib name m X Xs y) acc)"
        using False by (simp only: a Some cv_loop_step if_False)
      then show ?thesis using Cons.prems
        by (simp add: Cons.IH distinct_update)
    qed
  qed
qed

subsection \<open>\<open>fit\<close>\<close>

lemma fit_returns:
  assumes "prepare_and_split lib df = Inr sp"
    and "scaler_fit_transform lib (train_X sp) = Inr (sc, Xs)"
    and "transform sc (test_X sp) = Inr Xt"
    and "fit_rf lib (train_X sp) (train_y sp) = Inr rf"
    and "fit_gb lib (train_X sp) (train_y sp) = Inr gb"
    and "fit_ridge lib Xs (train_y sp) = Inr ridge"
    and "fit_elastic lib Xs (train_y sp) = Inr elastic"
  shows "fit tfa lib df self =
           (None, finish_fit tfa lib df sp Xs Xt (regressors_stored rf gb ridge elastic sc self))"
  using assms by (simp add: fit_def regressors_stored_def Let_def)


lemma fit_cases:
  "(\<exists>e self'. fit tfa lib df self = (Some e, self') \<and> is_fitted self' = is_fitted self) \<or>
   (\<exists>sp sc Xs Xt rf gb ridge elastic.
           prepare_and_split lib df = Inr sp \<and>
           scaler_fit_transform lib (train_X sp) = Inr (sc, Xs) \<and>
           transform sc (test_X sp) = Inr Xt \<and>
           fit_rf lib (train_X sp) (train_y sp) = Inr rf \<and>
           fit_gb lib (train_X sp) (train_y sp) = Inr gb \<and>
           fit_ridge lib Xs (train_y sp) = Inr ridge \<and>
           fit_elastic lib Xs (train_y sp) = Inr elastic)"
proof (cases "prepare_and_split lib df")
  case (Inl e)
  then show ?thesis by (simp add: fit_def)
next
  case sp: (Inr sp)
  show ?thesis
  proof (cases "scaler_fit_transform lib (train_X sp)")
    case (Inl e)
    then show ?thesis by (simp add: fit_def sp Let_def set_scaler_def)
  next
    case (Inr p)
    obtain sc Xs where p: "p = (sc, Xs)" by (cases p)
    note scp = Inr[unfolded p]
    show ?thesis
    proof (cases "transform sc (test_X sp)")
      case (Inl e)
      then show ?thesis by (simp add: fit_def sp scp Let_def set_scaler_def)
    next
      case xt: (Inr Xt)
      show ?thesis
      proof (cases "fit_rf lib (train_X sp) (train_y sp)")
        case (Inl e)
        then show ?thesis
          by (simp add: fit_def sp scp xt Let_def set_scaler_def set_model_def)
      next
        case rf: (Inr rf)
        show ?thesis
        proof (cases "fit_gb lib (train_X sp) (train_y sp)")
          case (Inl e)
          then show ?thesis
            by (simp add: fit_def sp scp xt rf Let_def set_scaler_def set_model_def)
        next
          case gb: (Inr gb)
          show ?thesis
          proof (cases "fit_ridge lib Xs (train_y sp)")
            case (Inl e)
            then show ?thesis
              by (simp add: fit_def sp scp xt rf gb Let_def set_scaler_def set_model_def)
          next
            case ridge: (Inr ridge)
            show ?thesis
            proof (cases "fit_elastic lib Xs (train_y sp)")
              case (Inl e)
              then show ?thesis
                by (simp add: fit_def sp scp xt rf gb ridge Let_def set_scaler_def set_model_def)
            next
              case (Inr elastic)
              with sp scp xt rf gb ridge show ?thesis by simp
            qed
          qed
        qed
      qed
    qed
  qed
qed

lemma fit_None_cases:
  assumes "fit tfa lib df self = (None, self')"
  shows "\<exists>sp sc Xs Xt rf gb ridge elastic.
           prepare_and_split lib df = Inr sp \<and>
           scaler_fit_transform lib (train_X sp) = Inr (sc, Xs) \<and>
           transform sc (test_X sp) = Inr Xt \<and>
           fit_rf lib (train_X sp) (train_y sp) = Inr rf \<and>
           fit_gb lib (train_X sp) (train_y sp) = Inr gb \<and>
           fit_ridge lib Xs (train_y sp) = Inr ridge \<and>
           fit_elastic lib Xs (train_y sp) = Inr elastic \<and>
           self' = finish_fit tfa lib df sp Xs Xt (regressors_stored rf gb ridge elastic sc self)"
proof -
  from fit_cases[of tfa lib df self] assms obtain sp sc Xs Xt rf gb ridge elastic where
    h: "prepare_and_split lib df = Inr sp"
       "scaler_fit_transform lib (train_X sp) = Inr (sc, Xs)"
       "transform sc (test_X sp) = Inr Xt"
       "fit_rf lib (train_X sp) (train_y sp) = Inr rf"
       "fit_gb lib (train_X sp) (train_y sp) = Inr gb"
       "fit_ridge lib Xs (train_y sp) = Inr ridge"
       "fit_elastic lib Xs (train_y sp) = Inr elastic"
    by auto
  from fit_returns[OF h, of tfa self] assms
  have "self' = finish_fit tfa lib df sp Xs Xt (regressors_stored rf gb ridge elastic sc self)"
    by simp
  with h show ?thesis by blast
qed

lemma finish_fit_fitted: "is_fitted (finish_fit tfa lib df sp Xs Xt self)"
  by (simp add: finish_fit_def Let_def)

lemma fit_flag:
  assumes "fit tfa lib df self = (r, self')"
  shows "is_fitted self' = (r = None \<or> is_fitted self)"
proof (cases r)
  case None
  with fit_None_cases[of tfa lib df self self'] assms show ?thesis
    by (auto simp: finish_fit_fitted)
next
  case (Some e)
  from fit_cases[of tfa lib df self] show ?thesis
  proof
    assume "\<exists>e self'. fit tfa lib df self = (Some e, self') \<and> is_fitted self' = is_fitted self"
    with assms Some show ?thesis by auto
  next
    assume "\<exists>sp sc Xs Xt rf gb ridge elastic.
           prepare_and_split lib df = Inr sp \<and>
           scaler_fit_transform lib (train_X sp) = Inr (sc, Xs) \<and>
           transform sc (test_X sp) = Inr Xt \<and>
           fit_rf lib (train_X sp) (train_y sp) = Inr rf \<and>
           fit_gb lib (train_X sp) (train_y sp) = Inr gb \<and>
           fit_ridge lib Xs (train_y sp) = Inr ridge \<and>
           fit_elastic lib Xs (train_y sp) = Inr elastic"
    then obtain sp sc Xs Xt rf gb ridge elastic where
      h: "prepare_and_split lib df = Inr sp"
       "scaler_fit_transform lib (train_X sp) = Inr (sc, Xs)"
       "transform sc (test_X sp) = Inr Xt"
       "fit_rf lib (train_X sp) (train_y sp) = Inr rf"
       "fit_gb lib (train_X sp) (train_y sp) = Inr gb"
       "fit_ridge lib Xs (train_y sp) = Inr ridge"
       "fit_elastic lib Xs (train_y sp) = Inr elastic"
      by blast
    from fit_returns[OF h, of tfa self] assms Some show ?thesis by simp
  qed
qed

lemma fit_all_flag:
  "fit_all tfa calls self = (rs, self') \<Longrightarrow> None \<notin> set rs \<Longrightarrow> is_fitted self' = is_fitted self"
proof (induction calls arbitrary: self rs self')
  case Nil
  then show ?case by simp
next
  case (Cons c calls)
  obtain lib df where c: "c = (lib, df)" by (cases c)
  obtain r s1 where f: "fit tfa lib df self = (r, s1)" by (cases "fit tfa lib df self")
  obtain rs1 s2 where g: "fit_all tfa calls s1 = (rs1, s2)" by (cases "fit_all tfa calls s1")
  from Cons.prems(1) have e: "rs = r # rs1" "self' = s2" by (simp_all add: c f g)
  from Cons.prems(2) e have r: "r \<noteq> None" by (cases r) simp_all
  from Cons.prems(2) e have n: "None \<notin> set rs1" by simp
  from Cons.IH[OF g n] fit_flag[OF f] r e show ?case by simp
qed

lemma models_set_scaler: "models (set_scaler k sc self) = models self"
  by (simp add: set_scaler_def)

lemma models_set_model: "models (set_model k m self) = AList.update k m (models self)"
  by (simp add: set_model_def)

lemma models_train_arima:
  "models (train_arima lib df self) =
     AList.update ''arima'' (case fit_arima lib df of Inl e \<Rightarrow> None | Inr m \<Rightarrow> Some m) (models self)"
  by (simp add: train_arima_def models_set_model split: sum.splits)

lemma models_train_lstm:
  "models (train_lstm tfa lib Xs y self) =
     (if tfa then AList.update ''lstm''
        (case build_lstm_model lib Xs y of Inl e \<Rightarrow> None | Inr m \<Rightarrow> Some m) (models self)
      else models self)"
  by (simp add: train_lstm_def models_set_model split: sum.splits)

lemma models_finish_fit:
  "models (finish_fit tfa lib df sp Xs Xt self) =
     models (train_lstm tfa lib Xs (train_y sp) (train_arima lib df self))"
  by (simp add: finish_fit_def Let_def calculate_ensemble_weights_def)

lemma weights_finish_fit:
  "ensemble_weights (finish_fit tfa lib df sp Xs Xt self) =
     normalize_weights
       (cv_loop lib (models (finish_fit tfa lib df sp Xs Xt self)) (train_X sp) Xs (train_y sp) [])"
  by (simp add: finish_fit_def Let_def calculate_ensemble_weights_def)


lemma map_of_models_stored:
  "map_of (models (regressors_stored rf gb ridge elastic sc self)) =
     (map_of (models self))(''rf'' \<mapsto> Some rf, ''gb'' \<mapsto> Some gb,
        ''ridge'' \<mapsto> Some ridge, ''elastic'' \<mapsto> Some elastic)"
  by (simp add: regressors_stored_def models_set_model models_set_scaler update_conv')

lemma map_of_models_finish:
  "map_of (models (finish_fit tfa lib df sp Xs Xt self)) =
     (if tfa then (map_of (models self))
          (''arima'' \<mapsto> (case fit_arima lib df of Inl e \<Rightarrow> None | Inr m \<Rightarrow> Some m),
           ''lstm'' \<mapsto> (case build_lstm_model lib Xs (train_y sp) of Inl e \<Rightarrow> None | Inr m \<Rightarrow> Some m))
      else (map_of (models self))
          (''arima'' \<mapsto> (case fit_arima lib df of Inl e \<Rightarrow> None | Inr m \<Rightarrow> Some m)))"
  by (simp add: models_finish_fit models_train_lstm models_train_arima update_conv')

lemma fitted_models:
  assumes "self' = finish_fit tfa lib df sp Xs Xt (regressors_stored rf gb ridge elastic sc self)"
  shows "map_of (models self') ''rf'' = Some (Some rf)"
    and "map_of (models self') ''gb'' = Some (Some gb)"
    and "map_of (models self') ''ridge'' = Some (Some ridge)"
    and "map_of (models self') ''elastic'' = Some (Some elastic)"
    and "map_of (models self') ''arima'' =
           Some (case fit_arima lib df of Inl e \<Rightarrow> None | Inr m \<Rightarrow> Some m)"
    and "tfa \<Longrightarrow> map_of (models self') ''lstm'' =
           Some (case build_lstm_model lib Xs (train_y sp) of Inl e \<Rightarrow> None | Inr m \<Rightarrow> Some m)"
  by (simp_all add: assms map_of_models_finish map_of_models_stored)

subsection \<open>The concrete run\<close>

lemma demo_fit:
  "fit False demo_library (demo_df p) init =
     (None,
      \<lparr>models = [(''rf'', Some (demo_regressor 1 0)), (''gb'', Some (demo_regressor 1 2)),
                 (''ridge'', Some (demo_regressor 2 0)), (''elastic'', Some (demo_regressor 2 4)),
                 (''arima'', Some (ARIMAResults [20, 40, p]))],
       scalers = [(''standard'', demo_scaler), (''minmax'', unfitted_scaler)],
       ensemble_weights = [(''rf'', 1 / 4), (''gb'', 1 / 4), (''ridge'', 1 / 4), (''elastic'', 1 / 4)],
       is_fitted = True, X_test = [[8]], X_test_scaled = [[4]], y_test = [p]\<rparr>)"
  by (simp add: demo_df_def demo_library_def fit_def finish_fit_def train_arima_def train_lstm_def
      calculate_ensemble_weights_def set_model_def set_scaler_def init_def normalize_weights_def
      np_mean_def mean_def demo_scaler_def Let_def)

lemma demo_fitted_eq:
  "demo_fitted p =
      \<lparr>models = [(''rf'', Some (demo_regressor 1 0)), (''gb'', Some (demo_regressor 1 2)),
                 (''ridge'', Some (demo_regressor 2 0)), (''elastic'', Some (demo_regressor 2 4)),
                 (''arima'', Some (ARIMAResults [20, 40, p]))],
       scalers = [(''standard'', demo_scaler), (''minmax'', unfitted_scaler)],
       ensemble_weights = [(''rf'', 1 / 4), (''gb'', 1 / 4), (''ridge'', 1 / 4), (''elastic'', 1 / 4)],
       is_fitted = True, X_test = [[8]], X_test_scaled = [[4]], y_test = [p]\<rparr>"
  by (simp add: demo_fitted_def demo_fit)

lemma set_update_subset: "set (AList.update k v al) \<subseteq> insert (k, v) (set al)"
  by (induction al) auto

lemma cv_loop_entries:
  assumes "(name, score) \<in> set (cv_loop lib ms X Xs y acc)"
  shows "(name, score) \<in> set acc \<or>
         (\<exists>m. (name, Some m) \<in> set ms \<and> score = cv_entry lib name m X Xs y)"
  using assms
proof (induction ms arbitrary: acc)
  case Nil
  then show ?case by simp
next
  case (Cons a ms)
  obtain n mo where a: "a = (n, mo)" by (cases a)
  show ?case
  proof (cases mo)
    case None
    with Cons.prems have "(name, score) \<in> set (cv_loop lib ms X Xs y acc)" by (simp add: a)
    from Cons.IH[OF this] show ?thesis by auto
  next
    case (Some m)
    show ?thesis
    proof (cases "n = ''arima'' \<or> n = ''lstm''")
      case True
      have "cv_loop lib (a # ms) X Xs y acc = cv_loop lib ms X Xs y acc"
        using True by (simp only: a Some cv_loop_step if_True)
      with Cons.prems have "(name, score) \<in> set (cv_loop lib ms X Xs y acc)" by simp
      from Cons.IH[OF this] show ?thesis by auto
    next
      case False
      let ?acc = "AList.update n (cv_entry lib n m X Xs y) acc"
      have "cv_loop lib (a # ms) X Xs y acc = cv_loop lib ms X Xs y ?acc"
        using False by (simp only: a Some cv_loop_step if_False)
      with Cons.prems have "(name, score) \<in> set (cv_loop lib ms X Xs y ?acc)" by simp
      from Cons.IH[OF this] have
        "(name, score) \<in> set ?acc \<or>
         (\<exists>m. (name, Some m) \<in> set ms \<and> score = cv_entry lib name m X Xs y)" .
      moreover have "(name, score) \<in> set ?acc \<Longrightarrow>
          (name, score) = (n, cv_entry lib n m X Xs y) \<or> (name, score) \<in> set acc"
        using set_update_subset[of n "cv_entry lib n m X Xs y" acc] by auto
      ultimately show ?thesis by (auto simp: a Some)
    qed
  qed
qed

lemma py_max0_clip: "py_max0 score = (case score of None \<Rightarrow> 0 | Some s \<Rightarrow> max 0 s)"
  by (cases score) auto

lemma cv_entry_mean:
  "cv_entry lib name m X Xs y =
     (case cross_val_score lib m (if name = ''ridge'' \<or> name = ''elastic'' then Xs else X) y of
        Inl e \<Rightarrow> Some 0
      | Inr scores \<Rightarrow>
          if scores = [] \<or> None \<in> set scores then None
          else Some (sum_list (map the scores) / real (length scores)))"
  by (auto simp: cv_entry_def np_mean_def mean_def split: sum.splits)

lemma models_fit_distinct:
  assumes "fit tfa lib df self = (None, self')" "distinct (map fst (models self))"
  shows "distinct (map fst (models self'))"
proof -
  from fit_None_cases[OF assms(1)] obtain sp sc Xs Xt rf gb ridge elastic where
    self': "self' = finish_fit tfa lib df sp Xs Xt (regressors_stored rf gb ridge elastic sc self)"
    by blast
  have "distinct (map fst (models (regressors_stored rf gb ridge elastic sc self)))"
    using assms(2)
    by (simp add: regressors_stored_def models_set_model models_set_scaler distinct_update)
  then show ?thesis
    by (simp add: self' models_finish_fit models_train_lstm models_train_arima distinct_update)
qed

lemma demo_fit_scores:
  "fit False demo_library_scores (demo_df 80) init =
     (None,
      \<lparr>models = [(''rf'', Some (demo_regressor 1 0)), (''gb'', Some (demo_regressor 1 2)),
                 (''ridge'', Some (demo_regressor 2 0)), (''elastic'', Some (demo_regressor 2 4)),
                 (''arima'', Some (ARIMAResults [20, 40, 80]))],
       scalers = [(''standard'', demo_scaler), (''minmax'', unfitted_scaler)],
       ensemble_weights = [(''rf'', 2 / 3), (''gb'', 0), (''ridge'', 0), (''elastic'', 1 / 3)],
       is_fitted = True, X_test = [[8]], X_test_scaled = [[4]], y_test = [80]\<rparr>)"
  by (simp add: demo_df_def demo_library_scores_def demo_library_def fit_def finish_fit_def
      train_arima_def train_lstm_def calculate_ensemble_weights_def set_model_def set_scaler_def
      init_def normalize_weights_def np_mean_def mean_def demo_scaler_def Let_def
      demo_regressor_def)


lemma demo_fitted_scores_eq:
  "demo_fitted_scores =
      \<lparr>models = [(''rf'', Some (demo_regressor 1 0)), (''gb'', Some (demo_regressor 1 2)),
                 (''ridge'', Some (demo_regressor 2 0)), (''elastic'', Some (demo_regressor 2 4)),
                 (''arima'', Some (ARIMAResults [20, 40, 80]))],
       scalers = [(''standard'', demo_scaler), (''minmax'', unfitted_scaler)],
       ensemble_weights = [(''rf'', 2 / 3), (''gb'', 0), (''ridge'', 0), (''elastic'', 1 / 3)],
       is_fitted = True, X_test = [[8]], X_test_scaled = [[4]], y_test = [80]\<rparr>"
  by (simp add: demo_fitted_scores_def demo_fit_scores)

text \<open>
  Claim C1. After a \<open>fit\<close> that returned, the ensemble weights are a dictionary over
  exactly the models that have a cross-validated score: the models that are not \<open>None\<close>,
  the ARIMA and the sequence model apart (there is at least one, the random forest). The
  score of a model is the mean of the fold scores that \<open>cross_val_score\<close> returns for it
  (on the scaled rows for the ridge regression and the elastic net), not a number when
  a fold score is, and 0 when the cross-validation raised. Every weight is non-negative;
  each is the score of its model clipped at 0 (not-a-number counting as 0) and divided
  by the sum of the clipped scores when that sum is positive, and \<open>1 / N\<close> otherwise; in
  both cases the weights sum to 1.
\<close>

theorem fit_ensemble_weights:
  assumes "fit tfa lib df self = (None, self')"
  shows "\<exists>sp sc X_train_scaled cv_scores.
     prepare_and_split lib df = Inr sp \<and>
     scaler_fit_transform lib (train_X sp) = Inr (sc, X_train_scaled) \<and>
     cv_scores \<noteq> [] \<and> distinct (map fst cv_scores) \<and>
     set (map fst cv_scores) =
       {name. name \<notin> {''arima'', ''lstm''} \<and> (\<exists>m. (name, Some m) \<in> set (models self'))} \<and>
     (distinct (map fst (models self)) \<longrightarrow> distinct (map fst (models self'))) \<and>
     (\<forall>(name, score) \<in> set cv_scores. \<exists>m. (name, Some m) \<in> set (models self') \<and>
        score =
          (case cross_val_score lib m
                  (if name = ''ridge'' \<or> name = ''elastic'' then X_train_scaled else train_X sp)
                  (train_y sp) of
             Inl e \<Rightarrow> Some 0
           | Inr scores \<Rightarrow>
               if scores = [] \<or> None \<in> set scores then None
               else Some (sum_list (map the scores) / real (length scores)))) \<and>
     map fst (ensemble_weights self') = map fst cv_scores \<and>
     (\<forall>w \<in> set (map snd (ensemble_weights self')). 0 \<le> w) \<and>
     (let clip = (\<lambda>score. case score of None \<Rightarrow> 0 | Some s \<Rightarrow> max 0 (s::real));
          total_score = sum_list (map (\<lambda>(name, score). clip score) cv_scores)
      in ensemble_weights self' =
           (if total_score > 0
            then map (\<lambda>(name, score). (name, clip score / total_score)) cv_scores
            else map (\<lambda>(name, score). (name, 1 / real (length cv_scores))) cv_scores)) \<and>
     sum_list (map snd (ensemble_weights self')) = 1"
proof -
  from fit_None_cases[OF assms] obtain sp sc Xs Xt rf gb ridge elastic where
    sp: "prepare_and_split lib df = Inr sp" and
    sc: "scaler_fit_transform lib (train_X sp) = Inr (sc, Xs)" and
    self': "self' = finish_fit tfa lib df sp Xs Xt (regressors_stored rf gb ridge elastic sc self)"
    by blast
  define cv where "cv = cv_loop lib (models self') (train_X sp) Xs (train_y sp) []"
  have w: "ensemble_weights self' = normalize_weights cv"
    unfolding cv_def self' by (rule weights_finish_fit)
  have keys: "set (map fst cv) =
       {name. name \<notin> {''arima'', ''lstm''} \<and> (\<exists>m. (name, Some m) \<in> set (models self'))}"
    unfolding cv_def by (simp add: cv_loop_keys)
  have "(''rf'', Some rf) \<in> set (models self')"
    by (rule map_of_SomeD) (rule fitted_models(1)[OF self'])
  then have "''rf'' \<in> set (map fst cv)"
    unfolding keys by auto
  then have ne: "cv \<noteq> []" by auto
  have d: "distinct (map fst cv)"
    unfolding cv_def by (rule cv_loop_distinct) simp
  have dm: "distinct (map fst (models self)) \<longrightarrow> distinct (map fst (models self'))"
    using models_fit_distinct[OF assms] by blast
  have entries: "\<forall>(name, score) \<in> set cv. \<exists>m. (name, Some m) \<in> set (models self') \<and>
        score =
          (case cross_val_score lib m
                  (if name = ''ridge'' \<or> name = ''elastic'' then Xs else train_X sp)
                  (train_y sp) of
             Inl e \<Rightarrow> Some 0
           | Inr scores \<Rightarrow>
               if scores = [] \<or> None \<in> set scores then None
               else Some (sum_list (map the scores) / real (length scores)))"
  proof (intro ballI, clarify)
    fix name score assume "(name, score) \<in> set cv"
    from cv_loop_entries[OF this[unfolded cv_def]] obtain m where
      "(name, Some m) \<in> set (models self')"
      "score = cv_entry lib name m (train_X sp) Xs (train_y sp)"
      by auto
    then show "\<exists>m. (name, Some m) \<in> set (models self') \<and>
        score =
          (case cross_val_score lib m
                  (if name = ''ridge'' \<or> name = ''elastic'' then Xs else train_X sp)
                  (train_y sp) of
             Inl e \<Rightarrow> Some 0
           | Inr scores \<Rightarrow>
               if scores = [] \<or> None \<in> set scores then None
               else Some (sum_list (map the scores) / real (length scores)))"
      unfolding cv_entry_mean by blast
  qed
  have nn: "\<forall>w \<in> set (map snd (ensemble_weights self')). 0 \<le> w"
    unfolding w using normalize_weights_nonneg by blast
  have f: "(let clip = (\<lambda>score. case score of None \<Rightarrow> 0 | Some s \<Rightarrow> max 0 (s::real));
          total_score = sum_list (map (\<lambda>(name, score). clip score) cv)
      in ensemble_weights self' =
           (if total_score > 0
            then map (\<lambda>(name, score). (name, clip score / total_score)) cv
            else map (\<lambda>(name, score). (name, 1 / real (length cv))) cv))"
    unfolding w normalize_weights_def py_max0_clip Let_def by simp
  from sp sc ne d keys dm entries nn f normalize_weights_keys[of cv] normalize_weights_sum[OF ne] w
  show ?thesis by (intro exI[of _ sp] exI[of _ sc] exI[of _ Xs] exI[of _ cv]) simp
qed

text \<open>A run of \<open>fit\<close> on the library whose scores differ: a positive mean, a negative
  mean, a cross-validation that raises, and a second positive mean.\<close>

theorem fit_ensemble_weights_witness:
  "fit False demo_library_scores (demo_df 80) init = (None, demo_fitted_scores) \<and>
   cross_val_score demo_library_scores (demo_regressor 1 0) [[2], [4]] [20, 40] =
     Inr [Some (1 / 2), Some (1 / 4), Some (3 / 4)] \<and>
   cross_val_score demo_library_scores (demo_regressor 1 2) [[2], [4]] [20, 40] =
     Inr [Some (- 1), Some (- 1 / 2), Some 0] \<and>
   cross_val_score demo_library_scores (demo_regressor 2 0) [[1], [2]] [20, 40] =
     Inl (LibraryError ''fold failed'') \<and>
   cross_val_score demo_library_scores (demo_regressor 2 4) [[1], [2]] [20, 40] =
     Inr [Some (1 / 4), Some (1 / 4), Some (1 / 4)] \<and>
   ensemble_weights demo_fitted_scores =
     [(''rf'', 2 / 3), (''gb'', 0), (''ridge'', 0), (''elastic'', 1 / 3)] \<and>
   sum_list (map snd (ensemble_weights demo_fitted_scores)) = 1"
proof -
  have f: "fit False demo_library_scores (demo_df 80) init = (None, demo_fitted_scores)"
    by (simp add: demo_fit_scores demo_fitted_scores_eq)
  from fit_ensemble_weights[OF f]
  have "sum_list (map snd (ensemble_weights demo_fitted_scores)) = 1" by blast
  moreover have
    "cross_val_score demo_library_scores (demo_regressor 1 0) [[2], [4]] [20, 40] =
       Inr [Some (1 / 2), Some (1 / 4), Some (3 / 4)]"
    "cross_val_score demo_library_scores (demo_regressor 1 2) [[2], [4]] [20, 40] =
       Inr [Some (- 1), Some (- 1 / 2), Some 0]"
    "cross_val_score demo_library_scores (demo_regressor 2 0) [[1], [2]] [20, 40] =
       Inl (LibraryError ''fold failed'')"
    "cross_val_score demo_library_scores (demo_regressor 2 4) [[1], [2]] [20, 40] =
       Inr [Some (1 / 4), Some (1 / 4), Some (1 / 4)]"
    by (simp_all add: demo_library_scores_def demo_regressor_def)
  ultimately show ?thesis using f by (simp add: demo_fitted_scores_eq)
qed

subsection \<open>Guarded and unguarded trainers\<close>

text \<open>
  Claim C3, as the program has it. A training failure of the ARIMA model or of the
  sequence model is caught: whenever the preparation of the data, the scaler and the
  four regressors succeed, \<open>fit\<close> returns and the object is fitted, whatever these two
  trainers do, and the entry of a trainer that failed is \<open>None\<close>. (The four regressors
  are trained outside every \<open>try\<close>.)
\<close>

theorem fit_guarded_trainers:
  assumes "prepare_and_split lib df = Inr sp"
    and "scaler_fit_transform lib (train_X sp) = Inr (sc, X_train_scaled)"
    and "transform sc (test_X sp) = Inr Xt"
    and "fit_rf lib (train_X sp) (train_y sp) = Inr rf"
    and "fit_gb lib (train_X sp) (train_y sp) = Inr gb"
    and "fit_ridge lib X_train_scaled (train_y sp) = Inr ridge"
    and "fit_elastic lib X_train_scaled (train_y sp) = Inr elastic"
  shows "\<exists>self'. fit tfa lib df self = (None, self') \<and> is_fitted self' \<and>
      map_of (models self') ''rf'' = Some (Some rf) \<and>
      map_of (models self') ''gb'' = Some (Some gb) \<and>
      map_of (models self') ''ridge'' = Some (Some ridge) \<and>
      map_of (models self') ''elastic'' = Some (Some elastic) \<and>
      map_of (models self') ''arima'' =
        Some (case fit_arima lib df of Inl e \<Rightarrow> None | Inr m \<Rightarrow> Some m) \<and>
      (if tfa
       then map_of (models self') ''lstm'' =
              Some (case build_lstm_model lib X_train_scaled (train_y sp) of
                      Inl e \<Rightarrow> None | Inr m \<Rightarrow> Some m)
       else map_of (models self') ''lstm'' = map_of (models self) ''lstm'')"
proof -
  define self' where
    "self' = finish_fit tfa lib df sp X_train_scaled Xt (regressors_stored rf gb ridge elastic sc self)"
  have f: "fit tfa lib df self = (None, self')"
    unfolding self'_def by (rule fit_returns[OF assms])
  have l: "\<not> tfa \<Longrightarrow> map_of (models self') ''lstm'' = map_of (models self) ''lstm''"
    by (simp add: self'_def map_of_models_finish map_of_models_stored)
  from f finish_fit_fitted[of tfa lib df sp X_train_scaled Xt] fitted_models[OF self'_def] l
  show ?thesis by (intro exI[of _ self']) (simp add: self'_def)
qed

lemma demo_fit_no_arima:
  "fit True demo_library_arima_fails (demo_df 80) init =
     (None,
      \<lparr>models = [(''rf'', Some (demo_regressor 1 0)), (''gb'', Some (demo_regressor 1 2)),
                 (''ridge'', Some (demo_regressor 2 0)), (''elastic'', Some (demo_regressor 2 4)),
                 (''arima'', None), (''lstm'', None)],
       scalers = [(''standard'', demo_scaler), (''minmax'', unfitted_scaler)],
       ensemble_weights = [(''rf'', 1 / 4), (''gb'', 1 / 4), (''ridge'', 1 / 4), (''elastic'', 1 / 4)],
       is_fitted = True, X_test = [[8]], X_test_scaled = [[4]], y_test = [80]\<rparr>)"
  by (simp add: demo_df_def demo_library_arima_fails_def demo_library_def fit_def finish_fit_def
      train_arima_def train_lstm_def
      calculate_ensemble_weights_def set_model_def set_scaler_def init_def normalize_weights_def
      np_mean_def mean_def demo_scaler_def Let_def)

lemma demo_fitted_no_arima_eq:
  "demo_fitted_no_arima =
      \<lparr>models = [(''rf'', Some (demo_regressor 1 0)), (''gb'', Some (demo_regressor 1 2)),
                 (''ridge'', Some (demo_regressor 2 0)), (''elastic'', Some (demo_regressor 2 4)),
                 (''arima'', None), (''lstm'', None)],
       scalers = [(''standard'', demo_scaler), (''minmax'', unfitted_scaler)],
       ensemble_weights = [(''rf'', 1 / 4), (''gb'', 1 / 4), (''ridge'', 1 / 4), (''elastic'', 1 / 4)],
       is_fitted = True, X_test = [[8]], X_test_scaled = [[4]], y_test = [80]\<rparr>"
  by (simp add: demo_fitted_no_arima_def demo_fit_no_arima)

text \<open>A run on the library whose ARIMA training fails, with the sequence model
  enabled and failing as well.\<close>

theorem fit_guarded_trainers_witness:
  "fit True demo_library_arima_fails (demo_df 80) init = (None, demo_fitted_no_arima) \<and>
   fit_arima demo_library_arima_fails (demo_df 80) = Inl (LibraryError ''no convergence'') \<and>
   build_lstm_model demo_library_arima_fails [[1], [2]] [20, 40] = Inl (LibraryError ''training failed'') \<and>
   is_fitted demo_fitted_no_arima \<and>
   map_of (models demo_fitted_no_arima) ''arima'' = Some None \<and>
   map_of (models demo_fitted_no_arima) ''lstm'' = Some None"
proof -
  let ?sp = "\<lparr>train_X = [[2], [4]], test_X = [[8]], train_y = [20, 40], test_y = [80]\<rparr>"
  have h: "prepare_and_split demo_library_arima_fails (demo_df 80) = Inr ?sp"
      "scaler_fit_transform demo_library_arima_fails (train_X ?sp) = Inr (demo_scaler, [[1], [2]])"
      "transform demo_scaler (test_X ?sp) = Inr [[4]]"
      "fit_rf demo_library_arima_fails (train_X ?sp) (train_y ?sp) = Inr (demo_regressor 1 0)"
      "fit_gb demo_library_arima_fails (train_X ?sp) (train_y ?sp) = Inr (demo_regressor 1 2)"
      "fit_ridge demo_library_arima_fails [[1], [2]] (train_y ?sp) = Inr (demo_regressor 2 0)"
      "fit_elastic demo_library_arima_fails [[1], [2]] (train_y ?sp) = Inr (demo_regressor 2 4)"
    by (simp_all add: demo_library_arima_fails_def demo_library_def demo_df_def demo_scaler_def)
  from fit_guarded_trainers[OF h, of True init]
  have "is_fitted demo_fitted_no_arima \<and>
        map_of (models demo_fitted_no_arima) ''arima'' = Some None \<and>
        map_of (models demo_fitted_no_arima) ''lstm'' = Some None"
    by (auto simp: demo_fitted_no_arima_def demo_library_arima_fails_def demo_library_def)
  moreover have "fit True demo_library_arima_fails (demo_df 80) init = (None, demo_fitted_no_arima)"
    by (simp add: demo_fit_no_arima demo_fitted_no_arima_eq)
  moreover have "fit_arima demo_library_arima_fails (demo_df 80) = Inl (LibraryError ''no convergence'')"
    by (simp add: demo_library_arima_fails_def)
  moreover have "build_lstm_model demo_library_arima_fails [[1], [2]] [20, 40] =
      Inl (LibraryError ''training failed'')"
    by (simp add: demo_library_arima_fails_def demo_library_def)
  ultimately show ?thesis by simp
qed

text \<open>The random forest fails to train while the other trainers of the library
  succeed: \<open>fit\<close> raises, the object is not fitted, and the entry of the random forest
  is the unfitted estimator, not \<open>None\<close>.\<close>

theorem fit_regressor_failure_counterexample:
  "fit_gb demo_library_rf_fails [[2], [4]] [20, 40] = Inr (demo_regressor 1 2) \<and>
   fit_arima demo_library_rf_fails (demo_df 80) = Inr (ARIMAResults [20, 40, 80]) \<and>
   fst (fit False demo_library_rf_fails (demo_df 80) init) = Some (LibraryError ''training failed'') \<and>
   \<not> is_fitted (snd (fit False demo_library_rf_fails (demo_df 80) init)) \<and>
   models (snd (fit False demo_library_rf_fails (demo_df 80) init)) =
     [(''rf'', Some unfitted_regressor)]"
  by (simp add: demo_df_def demo_library_rf_fails_def demo_library_def fit_def
      set_model_def set_scaler_def init_def demo_scaler_def Let_def)

subsection \<open>Errors, length and value of \<open>predict\<close>\<close>

lemma predict_unfitted:
  "\<not> is_fitted self \<Longrightarrow>
     predict tfa self X = Inl (ValueError ''Model must be fitted before making predictions'')"
  by (simp add: predict_def)

lemma evaluate_unfitted:
  "\<not> is_fitted self \<Longrightarrow>
     evaluate tfa sk self = Inl (ValueError ''Model must be fitted before evaluation'')"
  by (simp add: evaluate_def)

lemma predict_returns:
  assumes "produced tfa self X = Some ps" "ps \<noteq> []" "shapes_agree X ps"
  shows "\<exists>ys. predict tfa self X = Inr ys \<and> length ys = length X"
proof -
  from predict_value[OF assms] obtain ys where ys: "predict tfa self X = Inr ys" by blast
  with predict_length[OF ys] show ?thesis by blast
qed

lemma demo_regressor_ok:
  "sk_predict (demo_regressor a b) [[x]] = Inr [a * x + b]"
  by (simp add: demo_regressor_def)

lemma demo_regressor_refuses:
  "sk_predict (demo_regressor a b) ([x, y] # rows) =
     Inl (ValueError ''X has a different number of features'')"
  by (simp add: demo_regressor_def)

lemma demo_produced_one:
  "produced False (demo_fitted p) [[8]] =
     Some [(''rf'', [8]), (''gb'', [10]), (''ridge'', [8]), (''elastic'', [12]), (''arima'', [p])]"
  by (simp add: produced_def demo_fitted_eq demo_scaler_def model_predict_def demo_regressor_ok)

lemma demo_produced_two:
  "produced False (demo_fitted p) [[1, 2], [3, 4]] = Some [(''arima'', [p, p])]"
  by (simp add: produced_def demo_fitted_eq demo_scaler_def model_predict_def
      demo_regressor_refuses numeral_2_eq_2)

lemma demo_produced_none:
  "produced True demo_fitted_no_arima [[1, 2]] = Some []"
  by (simp add: produced_def demo_fitted_no_arima_eq demo_scaler_def model_predict_def
      demo_regressor_refuses)

lemma demo_predict_one: "predict False (demo_fitted p) [[8]] = Inr [19 / 2]"
  by (subst predict_produced[OF demo_produced_one])
     (simp add: demo_fitted_eq np_iadd_def broadcast_to_def weight_of_def)

lemma demo_predict_two: "predict False (demo_fitted p) [[1, 2], [3, 4]] = Inr [0, 0]"
  by (subst predict_produced[OF demo_produced_two])
     (simp add: demo_fitted_eq np_iadd_def broadcast_to_def weight_of_def numeral_2_eq_2)

lemma unweighted_after_fit:
  assumes "fit tfa lib df self = (None, self')" "name = ''arima'' \<or> name = ''lstm''"
  shows "weight_of (ensemble_weights self') name = 0"
proof -
  from fit_None_cases[OF assms(1)] obtain sp sc Xs Xt rf gb ridge elastic where
    self': "self' = finish_fit tfa lib df sp Xs Xt (regressors_stored rf gb ridge elastic sc self)"
    by blast
  define cv where "cv = cv_loop lib (models self') (train_X sp) Xs (train_y sp) []"
  have w: "ensemble_weights self' = normalize_weights cv"
    unfolding cv_def self' by (rule weights_finish_fit)
  have "name \<notin> fst ` set cv"
    unfolding cv_def cv_loop_keys using assms(2) by auto
  then have "name \<notin> fst ` set (ensemble_weights self')"
    using normalize_weights_keys[of cv] w by (metis list.set_map)
  then have "map_of (ensemble_weights self') name = None"
    by (simp add: map_of_eq_None_iff)
  then show ?thesis by (simp add: weight_of_def)
qed

lemma sum_list_zero: "(\<And>x. x \<in> set xs \<Longrightarrow> f x = (0::real)) \<Longrightarrow> sum_list (map f xs) = 0"
  by (induction xs) simp_all

lemma zero_weights:
  assumes "\<forall>(name, pred) \<in> set ps. weight_of weights name = 0"
  shows "weights_used weights ps = 0" and "weighted_sum_at weights ps i = 0"
proof -
  show "weights_used weights ps = 0"
    unfolding weights_used_def using assms by (intro sum_list_zero) auto
  show "weighted_sum_at weights ps i = 0"
    unfolding weighted_sum_at_def using assms by (intro sum_list_zero) auto
qed

lemma demo_regressor_rows:
  "sk_predict (demo_regressor a b) [[x], [y]] = Inr [a * x + b, a * y + b]"
  by (simp add: demo_regressor_def)

lemma demo_produced_rows:
  "produced False (demo_fitted p) [[2], [6]] =
     Some [(''rf'', [2, 6]), (''gb'', [4, 8]), (''ridge'', [2, 6]), (''elastic'', [6, 10]),
           (''arima'', [p, p])]"
  by (simp add: produced_def demo_fitted_eq demo_scaler_def model_predict_def demo_regressor_rows
      numeral_2_eq_2)

text \<open>
  Claim C6. On an object that no call of \<open>fit\<close> has returned on (any sequence of calls
  that all raised), \<open>predict\<close> and \<open>evaluate\<close> raise. \<open>predict\<close> raises when no model
  produces a prediction, with the message that no model is available when its loop was
  run. When at least one model produced a prediction, \<open>predict\<close> returns (the arrays
  returned by the libraries having one entry for each row).
\<close>

theorem predict_evaluate_errors:
  "(\<forall>calls rs self. fit_all tfa calls init = (rs, self) \<and> None \<notin> set rs \<longrightarrow>
       predict tfa self X = Inl (ValueError ''Model must be fitted before making predictions'') \<and>
       evaluate tfa sk self = Inl (ValueError ''Model must be fitted before evaluation'')) \<and>
   (\<forall>self. produced tfa self X = None \<longrightarrow> (\<exists>e. predict tfa self X = Inl e)) \<and>
   (\<forall>self. produced tfa self X = Some [] \<longrightarrow>
       predict tfa self X = Inl (ValueError ''No models available for prediction'')) \<and>
   (\<forall>self ps. produced tfa self X = Some ps \<and> ps \<noteq> [] \<and> shapes_agree X ps \<longrightarrow>
       (\<exists>ys. predict tfa self X = Inr ys))"
proof (intro conjI allI impI)
  fix calls rs self
  assume a: "fit_all tfa calls init = (rs, self) \<and> None \<notin> set rs"
  then have "is_fitted self = is_fitted init" using fit_all_flag by blast
  then have n: "\<not> is_fitted self" by (simp add: init_def)
  show "predict tfa self X = Inl (ValueError ''Model must be fitted before making predictions'')"
    by (rule predict_unfitted[OF n])
  show "evaluate tfa sk self = Inl (ValueError ''Model must be fitted before evaluation'')"
    by (rule evaluate_unfitted[OF n])
next
  fix self
  assume "produced tfa self X = None"
  then show "\<exists>e. predict tfa self X = Inl e" by (rule predict_no_produced)
next
  fix self
  assume "produced tfa self X = Some []"
  then show "predict tfa self X = Inl (ValueError ''No models available for prediction'')"
    by (simp add: predict_produced)
next
  fix self ps
  assume "produced tfa self X = Some ps \<and> ps \<noteq> [] \<and> shapes_agree X ps"
  then show "\<exists>ys. predict tfa self X = Inr ys" using predict_returns by blast
qed

text \<open>Runs: a \<open>fit\<close> on an empty table raises and leaves the object unfitted; on the
  object fitted without ARIMA model, rows of two features are refused by every
  regressor; on the object of the demo library, a row of one feature is predicted.\<close>

theorem predict_evaluate_errors_witness:
  "fit_all False [(demo_library, [])] init = ([Some (ValueError ''not enough samples'')], init) \<and>
   predict False init [[8]] = Inl (ValueError ''Model must be fitted before making predictions'') \<and>
   evaluate False demo_metrics init = Inl (ValueError ''Model must be fitted before evaluation'') \<and>
   produced False init [[8]] = None \<and>
   produced True demo_fitted_no_arima [[1, 2]] = Some [] \<and>
   predict True demo_fitted_no_arima [[1, 2]] =
     Inl (ValueError ''No models available for prediction'') \<and>
   produced False (demo_fitted 80) [[8]] =
     Some [(''rf'', [8]), (''gb'', [10]), (''ridge'', [8]), (''elastic'', [12]), (''arima'', [80])] \<and>
   predict False (demo_fitted 80) [[8]] = Inr [19 / 2]"
proof -
  have f: "fit_all False [(demo_library, [])] init = ([Some (ValueError ''not enough samples'')], init)"
    by (simp add: fit_def demo_library_def)
  have s: "shapes_agree [[8]]
     [(''rf'', [8]), (''gb'', [10]), (''ridge'', [8]), (''elastic'', [12]), (''arima'', [80])]"
    by (simp add: shapes_agree_def)
  note t1 = predict_evaluate_errors[of False "[[8]]" demo_metrics]
  note t2 = predict_evaluate_errors[of True "[[1, 2]]" demo_metrics]
  have n: "None \<notin> set [Some (ValueError ''not enough samples'')]" by simp
  from t1 f n have
    "predict False init [[8]] = Inl (ValueError ''Model must be fitted before making predictions'') \<and>
     evaluate False demo_metrics init = Inl (ValueError ''Model must be fitted before evaluation'')"
    by blast
  moreover from t2 demo_produced_none have
    "predict True demo_fitted_no_arima [[1, 2]] =
       Inl (ValueError ''No models available for prediction'')"
    by blast
  moreover from t1 demo_produced_one[of 80] s have "\<exists>ys. predict False (demo_fitted 80) [[8]] = Inr ys"
    by blast
  moreover have pn: "produced False init [[8]] = None" by (simp add: produced_def init_def)
  moreover from t1 pn have "\<exists>e. predict False init [[8]] = Inl e" by blast
  ultimately show ?thesis
    using f demo_produced_none demo_produced_one[of 80] demo_predict_one[of 80] by simp
qed

text \<open>
  Claim C7. On a fitted object and \<open>N\<close> feature rows on which at least one model's
  prediction call succeeds, \<open>predict\<close> returns \<open>N\<close> predictions (the arrays returned by
  the libraries having one entry for each row). By \<open>predict_length\<close>, whatever \<open>predict\<close>
  returns has the length \<open>N\<close>.
\<close>

theorem predict_length_N:
  assumes "produced tfa self X = Some ps" "ps \<noteq> []" "shapes_agree X ps"
  shows "\<exists>ys. predict tfa self X = Inr ys \<and> length ys = length X"
proof -
  from predict_value[OF assms] obtain ys where ys: "predict tfa self X = Inr ys" by blast
  from predict_length[OF ys] have "length ys = length X" .
  with ys show ?thesis by blast
qed

text \<open>A run on two rows.\<close>

theorem predict_length_N_witness:
  "produced False (demo_fitted 40) [[2], [6]] =
     Some [(''rf'', [2, 6]), (''gb'', [4, 8]), (''ridge'', [2, 6]), (''elastic'', [6, 10]),
           (''arima'', [40, 40])] \<and>
   shapes_agree [[2], [6]]
     [(''rf'', [2, 6]), (''gb'', [4, 8]), (''ridge'', [2, 6]), (''elastic'', [6, 10]),
      (''arima'', [40, 40])] \<and>
   (\<exists>ys. predict False (demo_fitted 40) [[2], [6]] = Inr ys \<and> length ys = 2)"
proof -
  have s: "shapes_agree [[2], [6]]
     [(''rf'', [2, 6]), (''gb'', [4, 8]), (''ridge'', [2, 6]), (''elastic'', [6, 10]),
      (''arima'', [40, 40])]"
    by (simp add: shapes_agree_def)
  from predict_length_N[OF demo_produced_rows[of 40] _ s]
  have "\<exists>ys. predict False (demo_fitted 40) [[2], [6]] = Inr ys \<and> length ys = 2"
    by (simp add: numeral_2_eq_2)
  with s demo_produced_rows[of 40] show ?thesis by simp
qed

text \<open>
  Claim C2, as the program has it. When at least one model's prediction call succeeds
  and the sum of the ensemble weights of the models that predicted is positive,
  \<open>predict\<close> returns, row by row, the weighted sum of the predictions produced divided by
  that sum of weights.
\<close>

theorem predict_blend:
  assumes "produced tfa self X = Some ps" "ps \<noteq> []" "shapes_agree X ps"
    and "weights_used (ensemble_weights self) ps > 0"
  shows "predict tfa self X =
           Inr (map (\<lambda>i. weighted_sum_at (ensemble_weights self) ps i /
                          weights_used (ensemble_weights self) ps) [0..<length X])"
proof -
  let ?w = "weights_used (ensemble_weights self) ps"
  let ?s = "weighted_sum_at (ensemble_weights self) ps"
  have "predict tfa self X =
          Inr (if ?w > 0 then map (\<lambda>i. ?s i / ?w) [0..<length X] else map (\<lambda>i. ?s i) [0..<length X])"
    by (rule predict_value[OF assms(1-3)])
  with assms(4) show ?thesis by simp
qed

text \<open>A run on two rows, the five models predicting.\<close>

theorem predict_blend_witness:
  "produced False (demo_fitted 60) [[2], [6]] =
     Some [(''rf'', [2, 6]), (''gb'', [4, 8]), (''ridge'', [2, 6]), (''elastic'', [6, 10]),
           (''arima'', [60, 60])] \<and>
   weights_used (ensemble_weights (demo_fitted 60))
     [(''rf'', [2, 6]), (''gb'', [4, 8]), (''ridge'', [2, 6]), (''elastic'', [6, 10]),
      (''arima'', [60, 60])] = 1 \<and>
   predict False (demo_fitted 60) [[2], [6]] = Inr [7 / 2, 15 / 2]"
proof -
  let ?ps = "[(''rf'', [2, 6]), (''gb'', [4, 8]), (''ridge'', [2, 6]), (''elastic'', [6, 10]),
           (''arima'', [60, 60])]"
  have s: "shapes_agree [[2], [6]] ?ps"
    by (simp add: shapes_agree_def)
  have w: "weights_used (ensemble_weights (demo_fitted 60)) ?ps = 1"
    by (simp add: weights_used_def weight_of_def demo_fitted_eq)
  have v: "weighted_sum_at (ensemble_weights (demo_fitted 60)) ?ps 0 = 7 / 2"
      "weighted_sum_at (ensemble_weights (demo_fitted 60)) ?ps (Suc 0) = 15 / 2"
    by (simp_all add: weighted_sum_at_def weight_of_def demo_fitted_eq)
  from predict_blend[OF demo_produced_rows[of 60] _ s] w v
  have "predict False (demo_fitted 60) [[2], [6]] = Inr [7 / 2, 15 / 2]" by simp
  with w demo_produced_rows[of 60] show ?thesis by simp
qed

text \<open>On rows that every regressor refuses, the ARIMA model alone predicts (80 for
  each row); it has no weight, the sum of the weights used is 0, nothing is divided, and
  \<open>predict\<close> returns zeros.\<close>

theorem predict_blend_counterexample:
  "produced False (demo_fitted 80) [[1, 2], [3, 4]] = Some [(''arima'', [80, 80])] \<and>
   weights_used (ensemble_weights (demo_fitted 80)) [(''arima'', [80, 80])] = 0 \<and>
   predict False (demo_fitted 80) [[1, 2], [3, 4]] = Inr [0, 0]"
  by (simp add: demo_produced_two demo_predict_two)
     (simp add: weights_used_def weight_of_def demo_fitted_eq)

text \<open>
  Claim C10. On a fitted object and \<open>N\<close> feature rows on which models predict and every
  model that predicts has the ensemble weight 0, \<open>predict\<close> returns \<open>N\<close> zeros and does not
  raise. After a \<open>fit\<close> that returned, the ARIMA and the sequence model have the weight 0.
\<close>

theorem predict_zero_weights:
  "(produced tfa self X = Some ps \<and> ps \<noteq> [] \<and> shapes_agree X ps \<and>
      (\<forall>(name, pred) \<in> set ps. weight_of (ensemble_weights self) name = 0) \<longrightarrow>
        predict tfa self X = Inr (replicate (length X) 0)) \<and>
   (fit tfb lib df self0 = (None, self1) \<longrightarrow>
        weight_of (ensemble_weights self1) ''arima'' = 0 \<and>
        weight_of (ensemble_weights self1) ''lstm'' = 0)"
proof (intro conjI impI)
  assume a: "produced tfa self X = Some ps \<and> ps \<noteq> [] \<and> shapes_agree X ps \<and>
      (\<forall>(name, pred) \<in> set ps. weight_of (ensemble_weights self) name = 0)"
  then have z: "\<forall>(name, pred) \<in> set ps. weight_of (ensemble_weights self) name = 0" by blast
  have "weighted_sum_at (ensemble_weights self) ps = (\<lambda>i. 0)"
    by (rule ext) (rule zero_weights(2)[OF z])
  moreover have "map (\<lambda>i. 0::real) [0..<length X] = replicate (length X) 0"
    by (simp add: map_replicate_const)
  ultimately show "predict tfa self X = Inr (replicate (length X) 0)"
    using a by (simp add: predict_value zero_weights(1)[OF z])
next
  assume "fit tfb lib df self0 = (None, self1)"
  then show "weight_of (ensemble_weights self1) ''arima'' = 0"
    by (rule unweighted_after_fit) simp
next
  assume "fit tfb lib df self0 = (None, self1)"
  then show "weight_of (ensemble_weights self1) ''lstm'' = 0"
    by (rule unweighted_after_fit) simp
qed

text \<open>A run where the ARIMA model alone predicts.\<close>

theorem predict_zero_weights_witness:
  "fit False demo_library (demo_df 50) init = (None, demo_fitted 50) \<and>
   weight_of (ensemble_weights (demo_fitted 50)) ''arima'' = 0 \<and>
   produced False (demo_fitted 50) [[1, 2], [3, 4]] = Some [(''arima'', [50, 50])] \<and>
   shapes_agree [[1, 2], [3, 4]] [(''arima'', [50, 50])] \<and>
   predict False (demo_fitted 50) [[1, 2], [3, 4]] = Inr [0, 0]"
proof -
  have f: "fit False demo_library (demo_df 50) init = (None, demo_fitted 50)"
    by (simp add: demo_fit demo_fitted_eq)
  have s: "shapes_agree [[1, 2], [3, 4]] [(''arima'', [50, 50])]"
    by (simp add: shapes_agree_def)
  note t = predict_zero_weights[of False "demo_fitted 50" "[[1, 2], [3, 4]]" "[(''arima'', [50, 50])]"
      False demo_library "demo_df 50" init "demo_fitted 50"]
  from t f have w: "weight_of (ensemble_weights (demo_fitted 50)) ''arima'' = 0" by blast
  with t s demo_produced_two[of 50]
  have "predict False (demo_fitted 50) [[1, 2], [3, 4]] = Inr (replicate (length [[1, 2], [3, 4::real]]) 0)"
    by simp
  then have "predict False (demo_fitted 50) [[1, 2], [3, 4]] = Inr [0, 0]"
    by (simp add: numeral_2_eq_2)
  with f w s demo_produced_two[of 50] show ?thesis by simp
qed

subsection \<open>The drought index\<close>

lemma drought_cell:
  "fillna0 (np_maximum0 (np_div (l - r) l)) =
     (if l \<noteq> 0 then Fin (max 0 ((l - r) / l)) else if r < 0 then PosInf else Fin 0)"
  by (simp add: np_div_def)

lemma drought_index_nth:
  assumes "1 \<le> window" "window < 2 ^ 63"
  shows "\<exists>ys. calculate_drought_index xs window = Inr ys \<and> length ys = length xs \<and>
     (\<forall>i < length xs. ys ! i =
        (let l = expanding_mean_at xs i; r = rolling_mean_at (nat window) xs i
         in if l \<noteq> 0 then Fin (max 0 ((l - r) / l)) else if r < 0 then PosInf else Fin 0))"
  using assms
  by (simp add: calculate_drought_index_def Let_def rolling_mean_def expanding_mean_def
      drought_cell del: np_maximum0.simps fillna0.simps)

text \<open>Windows that pandas refuses.\<close>

lemma drought_index_window_refused:
  "(window < 1 \<longrightarrow> calculate_drought_index xs window =
      Inl (ValueError (''min_periods 1 must be <= window '' @ show_int window))) \<and>
   (2 ^ 63 \<le> window \<longrightarrow> calculate_drought_index xs window = Inl OverflowError)"
  by (simp add: calculate_drought_index_def)

lemma drought_index_refused:
  "calculate_drought_index [1] 0 = Inl (ValueError ''min_periods 1 must be <= window 0'') \<and>
   calculate_drought_index [1] (- 12) = Inl (ValueError ''min_periods 1 must be <= window -12'') \<and>
   calculate_drought_index [1, 2] 9223372036854775808 = Inl OverflowError"
  by code_simp

lemma mean_nonneg: "\<forall>x\<in>set xs. 0 \<le> x \<Longrightarrow> 0 \<le> mean xs"
  by (simp add: mean_def sum_list_nonneg)

lemma mean_replicate: "0 < n \<Longrightarrow> mean (replicate n c) = c"
  by (simp add: mean_def sum_list_replicate)

lemma rolling_mean_nonneg:
  assumes "\<forall>x\<in>set xs. 0 \<le> x"
  shows "0 \<le> rolling_mean_at w xs i"
proof -
  have "set (drop (Suc i - w) (take (Suc i) xs)) \<subseteq> set xs"
    by (meson set_drop_subset set_take_subset subset_trans)
  with assms show ?thesis
    unfolding rolling_mean_at_def by (intro mean_nonneg) blast
qed

lemma expanding_mean_nonneg:
  assumes "\<forall>x\<in>set xs. 0 \<le> x"
  shows "0 \<le> expanding_mean_at xs i"
proof -
  have "set (take (Suc i) xs) \<subseteq> set xs" by (rule set_take_subset)
  with assms show ?thesis
    unfolding expanding_mean_at_def by (intro mean_nonneg) blast
qed

lemma means_replicate:
  assumes "i < n" "0 < w"
  shows "expanding_mean_at (replicate n c) i = c" and "rolling_mean_at w (replicate n c) i = c"
proof -
  from assms(1) have t: "take (Suc i) (replicate n c) = replicate (Suc i) c" by (simp add: min_def)
  show "expanding_mean_at (replicate n c) i = c"
    unfolding expanding_mean_at_def t by (rule mean_replicate) simp
  have "drop (Suc i - w) (replicate (Suc i) c) = replicate (Suc i - (Suc i - w)) c"
    by (rule drop_replicate)
  moreover have "0 < Suc i - (Suc i - w)" using assms(2) by arith
  ultimately show "rolling_mean_at w (replicate n c) i = c"
    unfolding rolling_mean_at_def t by (simp add: mean_replicate)
qed

text \<open>The two means as sums over positions.\<close>

lemma sum_list_take_nth:
  "n \<le> length xs \<Longrightarrow> sum_list (take n xs) = (\<Sum>j = 0..<n. xs ! j)"
  by (simp add: sum_list_sum_nth)

lemma sum_list_window_nth:
  assumes "i < length xs"
  shows "sum_list (drop (Suc i - w) (take (Suc i) xs)) = (\<Sum>j = Suc i - w..<Suc i. xs ! j)"
proof -
  let ?d = "Suc i - w"
  have l: "length (drop ?d (take (Suc i) xs)) = Suc i - ?d" using assms by simp
  have "sum_list (drop ?d (take (Suc i) xs)) =
        (\<Sum>k = 0..<Suc i - ?d. drop ?d (take (Suc i) xs) ! k)"
    by (simp only: sum_list_sum_nth l)
  also have "\<dots> = (\<Sum>k = 0..<Suc i - ?d. xs ! (k + ?d))"
    using assms by (intro sum.cong) (simp_all add: add.commute)
  also have "\<dots> = (\<Sum>j = 0 + ?d..<(Suc i - ?d) + ?d. xs ! j)"
    by (rule sum.shift_bounds_nat_ivl[symmetric])
  also have "(Suc i - ?d) + ?d = Suc i" by arith
  also have "0 + ?d = ?d" by simp
  finally show ?thesis .
qed

lemma expanding_mean_sum:
  assumes "i < length xs"
  shows "expanding_mean_at xs i = (\<Sum>j = 0..<Suc i. xs ! j) / real (Suc i)"
  using assms by (simp add: expanding_mean_at_def mean_def sum_list_take_nth del: sum.op_ivl_Suc)

lemma rolling_mean_sum:
  assumes "i < length xs" "0 < w"
  shows "rolling_mean_at w xs i = (\<Sum>j = Suc i - w..<Suc i. xs ! j) / real (min w (Suc i))"
proof -
  have "length (drop (Suc i - w) (take (Suc i) xs)) = min w (Suc i)"
    using assms by (simp add: min_def) arith
  then show ?thesis
    using assms by (simp add: rolling_mean_at_def mean_def sum_list_window_nth del: sum.op_ivl_Suc)
qed

text \<open>
  Claim C5. For every precipitation sequence (amounts of precipitation, none negative)
  and every window size (at least 1, within the 64-bit integers), the drought index is
  a sequence of the same length; its value at each position is 0 when the expanding
  mean to date is 0 (the quotient is then undefined), and otherwise
  \<open>max 0 ((expanding - trailing) / expanding)\<close>, where \<open>expanding\<close> is the mean of all values
  up to the position and \<open>trailing\<close> the mean of the last values up to it, at most as many
  as the window.
\<close>

theorem drought_index_values:
  assumes "\<forall>x \<in> set precipitation. 0 \<le> x" and "1 \<le> window" and "window < 2 ^ 63"
  shows "\<exists>ys. calculate_drought_index precipitation window = Inr ys \<and>
     length ys = length precipitation \<and>
     (\<forall>i < length precipitation.
        let expanding = (\<Sum>j = 0..<Suc i. precipitation ! j) / real (Suc i);
            trailing = (\<Sum>j = Suc i - nat window..<Suc i. precipitation ! j) /
                         real (min (nat window) (Suc i))
        in ys ! i = (if expanding = 0 then Fin 0
                     else Fin (max 0 ((expanding - trailing) / expanding))))"
proof -
  from drought_index_nth[OF assms(2,3), of precipitation] obtain ys where
    ys: "calculate_drought_index precipitation window = Inr ys"
        "length ys = length precipitation"
        "\<forall>i < length precipitation. ys ! i =
          (let l = expanding_mean_at precipitation i;
               r = rolling_mean_at (nat window) precipitation i
           in if l \<noteq> 0 then Fin (max 0 ((l - r) / l)) else if r < 0 then PosInf else Fin 0)"
    by blast
  have w: "0 < nat window" using assms(2) by simp
  have "let expanding = (\<Sum>j = 0..<Suc i. precipitation ! j) / real (Suc i);
            trailing = (\<Sum>j = Suc i - nat window..<Suc i. precipitation ! j) /
                         real (min (nat window) (Suc i))
        in ys ! i = (if expanding = 0 then Fin 0
                     else Fin (max 0 ((expanding - trailing) / expanding)))"
    if i: "i < length precipitation" for i
  proof -
    let ?l = "expanding_mean_at precipitation i"
    let ?r = "rolling_mean_at (nat window) precipitation i"
    from rolling_mean_nonneg[OF assms(1), of "nat window" i] have "\<not> ?r < 0" by simp
    with ys(3) i have "ys ! i = (if ?l = 0 then Fin 0 else Fin (max 0 ((?l - ?r) / ?l)))"
      by (simp add: Let_def)
    then show ?thesis
      unfolding expanding_mean_sum[OF i] rolling_mean_sum[OF i w] Let_def .
  qed
  with ys(1,2) show ?thesis by blast
qed

text \<open>A run with a window of 2.\<close>

theorem drought_index_values_witness:
  "list_all (\<lambda>x. 0 \<le> x) [0, 0, 4, 1, 0 :: real] \<and> (1::int) \<le> 2 \<and> (2::int) < 2 ^ 63 \<and>
   (\<exists>ys. calculate_drought_index [0, 0, 4, 1, 0] 2 = Inr ys \<and> length ys = 5 \<and>
         ys ! 1 = Fin 0 \<and> ys ! 2 = Fin 0 \<and> ys ! 4 = Fin (1 / 2)) \<and>
   calculate_drought_index [0, 0, 4, 1, 0] 2 = Inr [Fin 0, Fin 0, Fin 0, Fin 0, Fin (1 / 2)]"
proof -
  have nn: "\<forall>x \<in> set [0, 0, 4, 1, 0 :: real]. 0 \<le> x" by simp
  have w: "(1::int) \<le> 2" "(2::int) < 2 ^ 63" by simp_all
  from drought_index_values[OF nn w] obtain ys where
    ys: "calculate_drought_index [0, 0, 4, 1, 0] 2 = Inr ys" "length ys = 5"
      and v: "\<forall>i < 5. let expanding = (\<Sum>j = 0..<Suc i. [0, 0, 4, 1, 0 :: real] ! j) / real (Suc i);
            trailing = (\<Sum>j = Suc i - nat 2..<Suc i. [0, 0, 4, 1, 0 :: real] ! j) /
                         real (min (nat 2) (Suc i))
        in ys ! i = (if expanding = 0 then Fin 0
                     else Fin (max 0 ((expanding - trailing) / expanding)))"
    by auto
  from v have "ys ! 1 = Fin 0" by (simp add: Let_def)
  moreover from v have "ys ! 2 = Fin 0" by (simp add: Let_def sum.atLeast_Suc_lessThan numeral_2_eq_2)
  moreover from v have "ys ! 4 = Fin (1 / 2)"
    by (simp add: Let_def sum.atLeast_Suc_lessThan numeral_2_eq_2 eval_nat_numeral)
  ultimately have e: "\<exists>ys. calculate_drought_index [0, 0, 4, 1, 0] 2 = Inr ys \<and> length ys = 5 \<and>
         ys ! 1 = Fin 0 \<and> ys ! 2 = Fin 0 \<and> ys ! 4 = Fin (1 / 2)" using ys by blast
  have c: "calculate_drought_index [0, 0, 4, 1, 0] 2 =
      Inr [Fin 0, Fin 0, Fin 0, Fin 0, Fin (1 / 2)]"
    by code_simp
  from nn w e c show ?thesis by simp
qed

text \<open>
  Claim C8. For every precipitation sequence (amounts of precipitation, none negative)
  and every window size (at least 1, within the 64-bit integers), every value of the
  drought index lies between 0 and 1, and for every constant positive sequence every
  value is 0.
\<close>

theorem drought_index_range:
  assumes "\<forall>x \<in> set precipitation. 0 \<le> x" and "1 \<le> window" and "window < 2 ^ 63"
  shows "\<exists>ys. calculate_drought_index precipitation window = Inr ys \<and>
      (\<forall>v \<in> set ys. \<exists>r. v = Fin r \<and> 0 \<le> r \<and> r \<le> 1) \<and>
      (\<forall>c n. 0 < c \<and> precipitation = replicate n c \<longrightarrow> ys = replicate n (Fin 0))"
proof -
  let ?cell = "\<lambda>i. let l = expanding_mean_at precipitation i;
                      r = rolling_mean_at (nat window) precipitation i
       in if l \<noteq> 0 then Fin (max 0 ((l - r) / l)) else if r < 0 then PosInf else Fin 0"
  from drought_index_nth[OF assms(2,3), of precipitation] obtain ys where
    ys: "calculate_drought_index precipitation window = Inr ys"
        "length ys = length precipitation"
        "\<forall>i < length precipitation. ys ! i = ?cell i"
    by blast
  have unit: "\<forall>v \<in> set ys. \<exists>r. v = Fin r \<and> 0 \<le> r \<and> r \<le> 1"
  proof
    fix v assume "v \<in> set ys"
    then obtain i where i: "i < length ys" "v = ys ! i" by (auto simp: in_set_conv_nth)
    with ys(2,3) have v: "v = ?cell i" by simp
    let ?l = "expanding_mean_at precipitation i"
    let ?r = "rolling_mean_at (nat window) precipitation i"
    have l: "0 \<le> ?l" by (rule expanding_mean_nonneg[OF assms(1)])
    have r: "0 \<le> ?r" by (rule rolling_mean_nonneg[OF assms(1)])
    show "\<exists>r. v = Fin r \<and> 0 \<le> r \<and> r \<le> 1"
    proof (cases "?l = 0")
      case True
      with r v show ?thesis by (simp add: Let_def)
    next
      case False
      with l have "0 < ?l" by simp
      with r have "(?l - ?r) / ?l \<le> 1" by (simp add: divide_le_eq)
      with False v show ?thesis by (simp add: Let_def)
    qed
  qed
  have const: "ys = replicate n (Fin 0)" if c: "0 < c" "precipitation = replicate n c" for c n
  proof (rule nth_equalityI)
    show "length ys = length (replicate n (Fin 0))" using ys(2) c(2) by simp
    fix i assume "i < length ys"
    with ys(2) c(2) have i: "i < n" "i < length precipitation" by simp_all
    have w: "0 < nat window" using assms(2) by simp
    from ys(3) i(2) have "ys ! i = ?cell i" by simp
    also have "\<dots> = Fin 0"
      using c(1) by (simp add: c(2) means_replicate[OF i(1) w] Let_def)
    finally show "ys ! i = replicate n (Fin 0) ! i" using i(1) by simp
  qed
  from ys(1) unit const show ?thesis by blast
qed

text \<open>Runs on a constant sequence and on a sequence that reaches the bound 1.\<close>

theorem drought_index_range_witness:
  "list_all (\<lambda>x. 0 \<le> x) [2, 2, 2 :: real] \<and> (1::int) \<le> 30 \<and> (30::int) < 2 ^ 63 \<and>
   calculate_drought_index [2, 2, 2] 30 = Inr [Fin 0, Fin 0, Fin 0] \<and>
   list_all (\<lambda>x. 0 \<le> x) [4, 0 :: real] \<and> (1::int) \<le> 1 \<and> (1::int) < 2 ^ 63 \<and>
   calculate_drought_index [4, 0] 1 = Inr [Fin 0, Fin 1] \<and>
   list_all (\<lambda>v. \<exists>r. v = Fin r \<and> 0 \<le> r \<and> r \<le> 1) [Fin 0, Fin 1]"
proof -
  have nn: "\<forall>x \<in> set [2, 2, 2 :: real]. 0 \<le> x" by simp
  have w: "(1::int) \<le> 30" "(30::int) < 2 ^ 63" by simp_all
  from drought_index_range[OF nn w] obtain ys where
    ys: "calculate_drought_index [2, 2, 2] 30 = Inr ys"
    and c: "\<forall>c n. 0 < c \<and> [2, 2, 2::real] = replicate n c \<longrightarrow> ys = replicate n (Fin 0)"
    by blast
  have "[2, 2, 2] = replicate 3 (2::real)" by (simp add: numeral_3_eq_3)
  with c have "ys = replicate 3 (Fin 0)" by (metis zero_less_numeral)
  with ys have a: "calculate_drought_index [2, 2, 2] 30 = Inr [Fin 0, Fin 0, Fin 0]"
    by (simp add: numeral_3_eq_3)
  have b: "calculate_drought_index [4, 0] 1 = Inr [Fin 0, Fin 1]"
    by code_simp
  have nn2: "\<forall>x \<in> set [4, 0 :: real]. 0 \<le> x" by simp
  have w2: "(1::int) \<le> 1" "(1::int) < 2 ^ 63" by simp_all
  from drought_index_range[OF nn2 w2] b
  have "\<forall>v \<in> set [Fin 0, Fin 1]. \<exists>r. v = Fin r \<and> 0 \<le> r \<and> r \<le> 1"
    by auto
  then have "list_all (\<lambda>v. \<exists>r. v = Fin r \<and> 0 \<le> r \<and> r \<le> 1) [Fin 0, Fin 1]"
    by simp
  with a b show ?thesis by simp
qed

subsection \<open>The forecast\<close>

lemma ffill_length: "length (ffill prev rows) = length rows"
  by (induction rows arbitrary: prev) simp_all

lemma future_features_length:
  assumes "0 < n"
  shows "length (future_features lib df n) = n"
  using assms
  by (simp add: future_features_def Let_def fillna_zero_def ffill_length iloc_tail_def
      create_features_def future_df_def)

lemma future_features_length_zero: "length (future_features lib df 0) = length df"
  by (simp add: future_features_def Let_def fillna_zero_def ffill_length iloc_tail_def
      create_features_def future_df_def)

lemma date_range_length: "length (date_range start n) = n"
  by (simp add: date_range_def)

text \<open>
  A horizon of at least one day. For a table with at least one row and maximum date
  \<open>d\<close>, a horizon of \<open>n \<ge> 1\<close> days that ends before the last timestamp and a fitted object
  whose ensemble prediction on the \<open>n\<close> future feature rows succeeds, \<open>forecast_future\<close>
  returns a table of exactly \<open>n\<close> rows, row \<open>i\<close> (from 0) holding the date \<open>d + 1 + i\<close> and
  the prediction \<open>i\<close>.
\<close>

lemma forecast_rows:
  assumes "df \<noteq> []" "1 \<le> n_days" "n_days < 2 ^ 64"
    and "Max (set (map date df)) + 1 + n_days \<le> last_day"
    and "predict tfa self (future_features lib df (nat n_days)) = Inr future_predictions"
  shows "\<exists>rows. forecast_future tfa lib self df n_days = Inr rows \<and>
           length rows = nat n_days \<and>
           (\<forall>i < nat n_days.
              rows ! i = (Some (Max (set (map date df)) + 1 + int i), future_predictions ! i))"
proof -
  let ?n = "nat n_days"
  let ?dates = "date_range (Max (set (map date df)) + 1) ?n"
  from assms(2) have n: "0 < ?n" by simp
  from predict_returns_produced[OF assms(5)] have fitted: "is_fitted self"
    by (auto simp: produced_def split: if_splits)
  have len: "length future_predictions = ?n"
    using predict_length[OF assms(5)] future_features_length[OF n] by simp
  have d: "?dates \<noteq> []" using n date_range_length[of _ ?n] by (metis length_0_conv less_numeral_extra(3))
  have "forecast_future tfa lib self df n_days = set_predicted_price ?dates future_predictions"
    using assms fitted by (simp add: forecast_future_def)
  also have "\<dots> = Inr (zip (map Some ?dates) future_predictions)"
    using d len by (simp add: set_predicted_price_def date_range_length)
  finally have r: "forecast_future tfa lib self df n_days =
      Inr (zip (map Some ?dates) future_predictions)" .
  have "\<forall>i < ?n. zip (map Some ?dates) future_predictions ! i =
      (Some (Max (set (map date df)) + 1 + int i), future_predictions ! i)"
    using len by (simp add: date_range_def)
  with r len show ?thesis by (simp add: date_range_length)
qed

text \<open>
  A horizon of 0 days. \<open>iloc[-0:]\<close> keeps every row of the extended table, which is the
  history; whenever \<open>forecast_future\<close> returns, its table has as many rows as the history
  (at least one), none with a date.
\<close>

lemma forecast_zero_horizon_rows:
  assumes "forecast_future tfa lib self df 0 = Inr rows"
  shows "length rows = length df \<and> rows \<noteq> [] \<and> list_all (\<lambda>row. fst row = None) rows"
proof -
  from assms have df: "df \<noteq> []"
    by (auto simp: forecast_future_def split: if_splits)
  from assms obtain preds where
    p: "predict tfa self (future_features lib df 0) = Inr preds" and
    r: "set_predicted_price (date_range (Max (set (map date df)) + 1) 0) preds = Inr rows"
    by (auto simp: forecast_future_def split: if_splits sum.splits)
  from predict_length[OF p] have l: "length preds = length df"
    by (simp add: future_features_length_zero)
  with df have ne: "preds \<noteq> []" by auto
  from r ne have "rows = map (\<lambda>p. (None, p)) preds"
    by (simp add: set_predicted_price_def date_range_def)
  with l ne show ?thesis by (simp add: list_all_iff)
qed

lemma demo_features_two:
  "future_features demo_library (demo_df p) 2 = [[0], [1]]"
  by (simp add: future_features_def future_df_def demo_library_def demo_df_def Let_def
      create_features_def iloc_tail_def fillna_zero_def fill_from_def date_range_def
      upt_rec[of 0 "Suc _"] upt_rec[of "Suc _" "Suc _"] numeral_2_eq_2 numeral_3_eq_3)

lemma demo_features_zero:
  "future_features demo_library (demo_df p) 0 = [[2], [4], [8]]"
  by (simp add: future_features_def future_df_def demo_library_def demo_df_def Let_def
      create_features_def iloc_tail_def fillna_zero_def fill_from_def date_range_def
      upt_rec[of 0 "Suc _"] upt_rec[of "Suc _" "Suc _"] numeral_2_eq_2 numeral_3_eq_3)


lemma demo_predict_future: "predict False (demo_fitted p) [[0], [1]] = Inr [3 / 2, 5 / 2]"
proof -
  have pr: "produced False (demo_fitted p) [[0], [1]] =
     Some [(''rf'', [0, 1]), (''gb'', [2, 3]), (''ridge'', [0, 1]), (''elastic'', [4, 5]),
           (''arima'', [p, p])]"
    by (simp add: produced_def demo_fitted_eq demo_scaler_def model_predict_def
        demo_regressor_rows numeral_2_eq_2)
  show ?thesis
    by (subst predict_produced[OF pr])
       (simp add: demo_fitted_eq np_iadd_def broadcast_to_def weight_of_def)
qed

lemma demo_predict_history: "predict False (demo_fitted p) [[2], [4], [8]] = Inr [7 / 2, 11 / 2, 19 / 2]"
proof -
  have pr: "produced False (demo_fitted p) [[2], [4], [8]] =
     Some [(''rf'', [2, 4, 8]), (''gb'', [4, 6, 10]), (''ridge'', [2, 4, 8]),
           (''elastic'', [6, 8, 12]), (''arima'', [p, p, p])]"
    by (simp add: produced_def demo_fitted_eq demo_scaler_def model_predict_def
        demo_regressor_def numeral_3_eq_3)
  show ?thesis
    by (subst predict_produced[OF pr])
       (simp add: demo_fitted_eq np_iadd_def broadcast_to_def weight_of_def)
qed


lemma forecast_rows_example:
  "forecast_future False demo_library (demo_fitted 80) (demo_df 80) 2 =
     Inr [(Some 4, 3 / 2), (Some 5, 5 / 2)]"
proof -
  have a: "demo_df 80 \<noteq> []" by (simp add: demo_df_def)
  have b: "(1::int) \<le> 2" "(2::int) < 2 ^ 64" by simp_all
  have m: "Max (set (map date (demo_df 80))) = 3" by (simp add: demo_df_def)
  then have e: "Max (set (map date (demo_df 80))) + 1 + 2 \<le> last_day" by (simp add: last_day_def)
  have c: "predict False (demo_fitted 80) (future_features demo_library (demo_df 80) (nat 2)) =
     Inr [3 / 2, 5 / 2]"
    by (simp add: demo_features_two demo_predict_future)
  from forecast_rows[OF a b e c] obtain rows where
    r: "forecast_future False demo_library (demo_fitted 80) (demo_df 80) 2 = Inr rows"
       "length rows = 2"
       "\<forall>i < 2. rows ! i = (Some (Max (set (map date (demo_df 80))) + 1 + int i), [3 / 2, 5 / 2] ! i)"
    by auto
  from r(3) m have "rows ! 0 = (Some 4, 3 / 2)" "rows ! 1 = (Some 5, 5 / 2)"
    by simp_all
  with r(2) have "rows = [(Some 4, 3 / 2), (Some 5, 5 / 2)]"
    by (intro nth_equalityI) (auto simp: less_Suc_eq numeral_2_eq_2)
  with r(1) show ?thesis by simp
qed

text \<open>Horizons that the libraries refuse: a negative one, and one past the last
  timestamp.\<close>

lemma forecast_refused:
  "forecast_future False demo_library (demo_fitted 80) (demo_df 80) (- 1) = Inl OverflowError \<and>
   forecast_future False demo_library (demo_fitted 80) (demo_df 80) 106748 =
     Inl OutOfBoundsDatetime"
  by (simp add: forecast_future_def last_day_def) (simp add: demo_fitted_eq demo_df_def)

text \<open>
  Claim C4 says that for every fitted model, every history table with a maximum date
  \<open>d\<close> and every horizon \<open>n\<close>, \<open>forecast_future\<close> returns a table of exactly \<open>n\<close> rows whose
  dates start at \<open>d + 1\<close> and go up by one day. The program does so for \<open>n \<ge> 1\<close>
  (\<open>forecast_rows\<close>) and not for \<open>n = 0\<close>: on the fitted demo object and the three days of
  the demo table, whose maximum date is 3, the horizon 0 gives a table of three rows
  without dates, one for each row of the history, where the claim has a table without
  rows.
\<close>

theorem forecast_zero_horizon:
  "is_fitted (demo_fitted 80) \<and> length (demo_df 80) = 3 \<and>
   Max (set (map date (demo_df 80))) = 3 \<and>
   forecast_future False demo_library (demo_fitted 80) (demo_df 80) 0 =
     Inr [(None, 7 / 2), (None, 11 / 2), (None, 19 / 2)]"
  by (simp add: forecast_future_def demo_features_zero demo_predict_history
      set_predicted_price_def date_range_def last_day_def)
     (simp add: demo_fitted_eq demo_df_def)

subsection \<open>The percentage error of \<open>evaluate\<close>\<close>

lemma np_div_finite: "is_finite (np_abs (np_div a b)) = (b \<noteq> 0)"
  by (simp add: np_div_def)

lemma mape_terms_cases:
  assumes "mape_terms actual y_pred = Inr terms"
  shows "length terms = length actual \<and>
         (\<forall>i < length terms. is_finite (terms ! i) = (actual ! i \<noteq> 0))"
proof -
  from assms obtain p where
    p: "broadcast_to (length actual) y_pred = Inr p" and
    t: "terms = map2 (\<lambda>a b. np_abs (np_div (a - b) a)) actual p"
    by (auto simp: mape_terms_def split: sum.splits)
  from broadcast_length[OF p] have l: "length p = length actual" .
  with t show ?thesis by (simp add: np_div_finite)
qed

lemma series_mean_finite:
  assumes "vs \<noteq> []" "\<forall>v \<in> set vs. is_finite v"
  shows "is_finite (series_mean vs)"
proof -
  have f: "filter (\<lambda>v. v \<noteq> NaN) vs = vs"
    using assms(2) by (intro filter_True) auto
  have "PosInf \<notin> set vs" "NegInf \<notin> set vs" using assms(2) by auto
  with f assms(1) show ?thesis by (simp add: series_mean_def)
qed

lemma np_times_finite: "is_finite v \<Longrightarrow> is_finite (np_times v c)"
  by (cases v) simp_all

lemma evaluate_cases:
  assumes "evaluate tfa sk self = Inr m"
  shows "\<exists>y_pred terms. predict tfa self (X_test self) = Inr y_pred \<and>
           mape_terms (y_test self) y_pred = Inr terms \<and>
           MAPE m = np_times (series_mean terms) 100"
proof -
  from assms have f: "is_fitted self" by (auto simp: evaluate_def split: if_splits)
  from assms f obtain y_pred where y: "predict tfa self (X_test self) = Inr y_pred"
    by (cases "predict tfa self (X_test self)") (simp_all add: evaluate_def)
  from assms f y obtain mae where a: "mean_absolute_error sk (y_test self) y_pred = Inr mae"
    by (cases "mean_absolute_error sk (y_test self) y_pred") (simp_all add: evaluate_def)
  from assms f y a obtain mse where b: "mean_squared_error sk (y_test self) y_pred = Inr mse"
    by (cases "mean_squared_error sk (y_test self) y_pred") (simp_all add: evaluate_def)
  from assms f y a b obtain r2 where c: "r2_score sk (y_test self) y_pred = Inr r2"
    by (cases "r2_score sk (y_test self) y_pred") (simp_all add: evaluate_def)
  from assms f y a b c obtain mp where d: "mape (y_test self) y_pred = Inr mp"
    by (cases "mape (y_test self) y_pred") (simp_all add: evaluate_def)
  from assms f y a b c d have m: "MAPE m = mp" by (auto simp: evaluate_def)
  from d obtain terms where t: "mape_terms (y_test self) y_pred = Inr terms"
    and mp: "mp = np_times (series_mean terms) 100"
    by (auto simp: mape_def split: sum.splits)
  from y t m mp show ?thesis by blast
qed

lemma demo_evaluate_zero:
  "\<exists>m. evaluate False demo_metrics (demo_fitted 0) = Inr m \<and> MAPE m = PosInf"
proof -
  have p: "predict False (demo_fitted 0) (X_test (demo_fitted 0)) = Inr [19 / 2]"
    using demo_predict_one[of 0] by (simp add: demo_fitted_eq)
  have y: "y_test (demo_fitted 0) = [0]" by (simp add: demo_fitted_eq)
  have f: "is_fitted (demo_fitted 0)" by (simp add: demo_fitted_eq)
  have "mape [0] [19 / 2] = Inr PosInf"
    by (simp add: mape_def mape_terms_def broadcast_to_def np_div_def series_mean_def)
  with p y f show ?thesis
    by (simp add: evaluate_def demo_metrics_def)
qed

text \<open>
  Claim C9. The quotient of the percentage error divides by each held-out price with
  no test. There is a fitted object with a held-out price 0 on which \<open>evaluate\<close> returns
  and a term of the percentage error is not finite (a division by zero). Whenever
  \<open>evaluate\<close> returns, the term of a held-out price is finite exactly when that price is
  not 0; so with every held-out price nonzero no term divides by zero, and the
  percentage error is finite.
\<close>

theorem mape_division_by_zero:
  "(\<exists>tfa sk self m y_pred terms.
      is_fitted self \<and> 0 \<in> set (y_test self) \<and> evaluate tfa sk self = Inr m \<and>
      predict tfa self (X_test self) = Inr y_pred \<and>
      mape_terms (y_test self) y_pred = Inr terms \<and> list_ex (\<lambda>t. \<not> is_finite t) terms) \<and>
   (\<forall>tfa sk self m. evaluate tfa sk self = Inr m \<longrightarrow>
      (\<exists>y_pred terms.
          predict tfa self (X_test self) = Inr y_pred \<and>
          mape_terms (y_test self) y_pred = Inr terms \<and>
          length terms = length (y_test self) \<and>
          MAPE m = np_times (series_mean terms) 100 \<and>
          (\<forall>i < length terms. is_finite (terms ! i) = (y_test self ! i \<noteq> 0)) \<and>
          (0 \<notin> set (y_test self) \<longrightarrow> list_all is_finite terms) \<and>
          (0 \<notin> set (y_test self) \<and> y_test self \<noteq> [] \<longrightarrow> is_finite (MAPE m))))"
proof (intro conjI allI impI)
  from demo_evaluate_zero obtain m where
    m: "evaluate False demo_metrics (demo_fitted 0) = Inr m" by blast
  have p: "predict False (demo_fitted 0) (X_test (demo_fitted 0)) = Inr [19 / 2]"
    using demo_predict_one[of 0] by (simp add: demo_fitted_eq)
  have t: "mape_terms (y_test (demo_fitted 0)) [19 / 2] = Inr [PosInf]"
    by (simp add: demo_fitted_eq mape_terms_def broadcast_to_def np_div_def)
  have "is_fitted (demo_fitted 0) \<and> 0 \<in> set (y_test (demo_fitted 0))"
    by (simp add: demo_fitted_eq)
  with m p t show "\<exists>tfa sk self m y_pred terms.
      is_fitted self \<and> 0 \<in> set (y_test self) \<and> evaluate tfa sk self = Inr m \<and>
      predict tfa self (X_test self) = Inr y_pred \<and>
      mape_terms (y_test self) y_pred = Inr terms \<and> list_ex (\<lambda>t. \<not> is_finite t) terms"
    by (intro exI[of _ False] exI[of _ demo_metrics] exI[of _ "demo_fitted 0"] exI[of _ m]
        exI[of _ "[19 / 2]"] exI[of _ "[PosInf]"]) simp
next
  fix tfa sk self m
  assume e: "evaluate tfa sk self = Inr m"
  from evaluate_cases[OF e] obtain y_pred terms where
    y: "predict tfa self (X_test self) = Inr y_pred" and
    t: "mape_terms (y_test self) y_pred = Inr terms" and
    m: "MAPE m = np_times (series_mean terms) 100"
    by blast
  from mape_terms_cases[OF t] have
    l: "length terms = length (y_test self)" and
    fin: "\<forall>i < length terms. is_finite (terms ! i) = (y_test self ! i \<noteq> 0)"
    by simp_all
  have all: "list_all is_finite terms" if "0 \<notin> set (y_test self)"
    unfolding list_all_length
  proof (intro allI impI)
    fix i assume i: "i < length terms"
    with l that have "y_test self ! i \<noteq> 0" by (metis nth_mem)
    with fin i show "is_finite (terms ! i)" by simp
  qed
  have mfin: "is_finite (MAPE m)" if "0 \<notin> set (y_test self) \<and> y_test self \<noteq> []"
  proof -
    from that l have "terms \<noteq> []" by auto
    moreover from all that have "\<forall>v \<in> set terms. is_finite v" by (simp add: list_all_iff)
    ultimately show ?thesis unfolding m by (intro np_times_finite series_mean_finite)
  qed
  from y t l m fin all mfin show "\<exists>y_pred terms.
          predict tfa self (X_test self) = Inr y_pred \<and>
          mape_terms (y_test self) y_pred = Inr terms \<and>
          length terms = length (y_test self) \<and>
          MAPE m = np_times (series_mean terms) 100 \<and>
          (\<forall>i < length terms. is_finite (terms ! i) = (y_test self ! i \<noteq> 0)) \<and>
          (0 \<notin> set (y_test self) \<longrightarrow> list_all is_finite terms) \<and>
          (0 \<notin> set (y_test self) \<and> y_test self \<noteq> [] \<longrightarrow> is_finite (MAPE m))"
    by blast
qed


lemma demo_evaluate_eighty:
  "\<exists>m. evaluate False demo_metrics (demo_fitted 80) = Inr m \<and> MAPE m = Fin (705 / 8)"
proof -
  have p: "predict False (demo_fitted 80) (X_test (demo_fitted 80)) = Inr [19 / 2]"
    using demo_predict_one[of 80] by (simp add: demo_fitted_eq)
  have y: "y_test (demo_fitted 80) = [80]" by (simp add: demo_fitted_eq)
  have f: "is_fitted (demo_fitted 80)" by (simp add: demo_fitted_eq)
  have "mape [80] [19 / 2] = Inr (Fin (705 / 8))"
    by (simp add: mape_def mape_terms_def broadcast_to_def np_div_def series_mean_def mean_def)
  with p y f show ?thesis
    by (simp add: evaluate_def demo_metrics_def)
qed

text \<open>Runs with the held-out price 80 and with the held-out price 0.\<close>

theorem mape_division_by_zero_witness:
  "y_test (demo_fitted 80) = [80] \<and>
   (\<exists>m. evaluate False demo_metrics (demo_fitted 80) = Inr m \<and> MAPE m = Fin (705 / 8) \<and>
        is_finite (MAPE m)) \<and>
   y_test (demo_fitted 0) = [0] \<and>
   (\<exists>m. evaluate False demo_metrics (demo_fitted 0) = Inr m \<and> MAPE m = PosInf)"
proof -
  from demo_evaluate_eighty obtain m where
    m: "evaluate False demo_metrics (demo_fitted 80) = Inr m" "MAPE m = Fin (705 / 8)" by blast
  have y: "y_test (demo_fitted 80) = [80]" by (simp add: demo_fitted_eq)
  then have nz: "0 \<notin> set (y_test (demo_fitted 80)) \<and> y_test (demo_fitted 80) \<noteq> []" by simp
  from mape_division_by_zero m(1) nz have "is_finite (MAPE m)" by blast
  with m have "\<exists>m. evaluate False demo_metrics (demo_fitted 80) = Inr m \<and>
      MAPE m = Fin (705 / 8) \<and> is_finite (MAPE m)" by blast
  moreover have "y_test (demo_fitted 0) = [0]" by (simp add: demo_fitted_eq)
  ultimately show ?thesis using y demo_evaluate_zero by simp
qed

end
